theory Spec2Isabelle
  imports Main "HOL-Library.Word" "HOL-Library.Sublist"
begin

unbundle bit_operations_syntax

section \<open>VCDIFF default code table (vcdiff.ts)\<close>

text \<open>
  Instruction types of the decoder and the record of one half of a code-table entry.
  The fields of \<open>VCDIFFInstruction\<close> are \<open>type\<close>, \<open>size\<close> and \<open>mode\<close> in the source.
\<close>

definition VCD_NOOP :: nat where "VCD_NOOP = 0"
definition VCD_ADD :: nat where "VCD_ADD = 1"
definition VCD_RUN :: nat where "VCD_RUN = 2"
definition VCD_COPY :: nat where "VCD_COPY = 3"

record VCDIFFInstruction =
  instr_type :: nat
  instr_size :: nat
  instr_mode :: nat

definition instr :: "nat \<Rightarrow> nat \<Rightarrow> nat \<Rightarrow> VCDIFFInstruction" where
  "instr t s m = \<lparr>instr_type = t, instr_size = s, instr_mode = m\<rparr>"

definition empty_instr :: VCDIFFInstruction where
  "empty_instr = instr VCD_NOOP 0 0"

text \<open>
  The table is built by a sequence of \<open>for\<close> loops that push entries; each loop is a
  \<open>map\<close> over its index range, nested loops are concatenated in loop order.
\<close>

definition VCD_DEFAULT_CODE_TABLE :: "(VCDIFFInstruction \<times> VCDIFFInstruction) list" where
  "VCD_DEFAULT_CODE_TABLE =
     [(instr VCD_RUN 0 0, empty_instr)]
     @ map (\<lambda>size. (instr VCD_ADD size 0, empty_instr)) [0..<18]
     @ concat (map (\<lambda>mode.
         (instr VCD_COPY 0 mode, empty_instr)
         # map (\<lambda>size. (instr VCD_COPY size mode, empty_instr)) [4..<19]) [0..<9])
     @ concat (map (\<lambda>mode.
         concat (map (\<lambda>addSize.
           map (\<lambda>copySize. (instr VCD_ADD addSize 0, instr VCD_COPY copySize mode)) [4..<7])
           [1..<5])) [0..<6])
     @ concat (map (\<lambda>mode.
         map (\<lambda>addSize. (instr VCD_ADD addSize 0, instr VCD_COPY 4 mode)) [1..<5]) [6..<9])
     @ map (\<lambda>mode. (instr VCD_COPY 4 mode, instr VCD_ADD 1 0)) [0..<9]"

text \<open>
  The table of RFC 3284, section 5.6, read off by index: what the specification says
  entry \<open>i\<close> is.
\<close>

definition rfc3284_entry :: "nat \<Rightarrow> VCDIFFInstruction \<times> VCDIFFInstruction" where
  "rfc3284_entry i =
     (if i = 0 then (instr VCD_RUN 0 0, empty_instr)
      else if i \<le> 18 then (instr VCD_ADD (i - 1) 0, empty_instr)
      else if i \<le> 162 then
        (let j = i - 19; mode = j div 16; k = j mod 16
         in (instr VCD_COPY (if k = 0 then 0 else k + 3) mode, empty_instr))
      else if i \<le> 234 then
        (let j = i - 163; mode = j div 12; addSize = (j mod 12) div 3 + 1; copySize = j mod 3 + 4
         in (instr VCD_ADD addSize 0, instr VCD_COPY copySize mode))
      else if i \<le> 246 then
        (let j = i - 235; mode = 6 + j div 4; addSize = j mod 4 + 1
         in (instr VCD_ADD addSize 0, instr VCD_COPY 4 mode))
      else (instr VCD_COPY 4 (i - 247), instr VCD_ADD 1 0))"


section \<open>JavaScript values (the part the patcher uses)\<close>

text \<open>
  A JavaScript \<open>number\<close> is modelled by an \<open>int\<close>: every number the byte cursor and the
  codecs compute is an integer (sizes, offsets, bytes, checksums). An index outside a typed
  array reads \<open>undefined\<close>, so an array read is a \<open>jsval\<close>.
  The bitwise operators first convert their operands with ToInt32 (ToUint32 for
  \<open>>>>\<close>), which sends \<open>undefined\<close> to 0, and take shift counts modulo 32.
  A number is a double: an integer below \<open>2^53\<close> is exact, and a larger one is kept
  with 53 significant bits, rounded to the nearest, a tie to the even one (\<open>toDouble\<close>,
  for the non-negative integers the 64-bit offsets of PPF need).
\<close>

datatype jsval = Num int | Undefined

fun num :: "jsval \<Rightarrow> int" where
  "num (Num n) = n"
| "num Undefined = 0"

definition ToInt32 :: "int \<Rightarrow> int" where
  "ToInt32 x = (x + 2147483648) mod 4294967296 - 2147483648"

definition ToUint32 :: "int \<Rightarrow> int" where
  "ToUint32 x = x mod 4294967296"

definition js_and :: "int \<Rightarrow> int \<Rightarrow> int" where
  "js_and a b = ToInt32 a AND ToInt32 b"

definition js_or :: "int \<Rightarrow> int \<Rightarrow> int" where
  "js_or a b = ToInt32 a OR ToInt32 b"

definition js_xor :: "int \<Rightarrow> int \<Rightarrow> int" where
  "js_xor a b = ToInt32 a XOR ToInt32 b"

definition js_shl :: "int \<Rightarrow> int \<Rightarrow> int" where
  "js_shl a n = ToInt32 (ToInt32 a * 2 ^ nat (n mod 32))"

definition js_sar :: "int \<Rightarrow> int \<Rightarrow> int" where
  "js_sar a n = ToInt32 a div 2 ^ nat (n mod 32)"

definition js_shr :: "int \<Rightarrow> int \<Rightarrow> int" where
  "js_shr a n = ToUint32 a div 2 ^ nat (n mod 32)"

text \<open>The number of low bits a non-negative integer loses as a double.\<close>

function double_exponent :: "int \<Rightarrow> nat" where
  "double_exponent x =
     (if x < 9007199254740992 then 0 else Suc (double_exponent (x div 2)))"
  by pat_completeness auto
termination
  by (relation "measure nat") auto

declare double_exponent.simps [simp del]

definition toDouble :: "int \<Rightarrow> int" where
  "toDouble x =
     (let e = double_exponent x; q = x div 2 ^ e; r = x mod 2 ^ e
      in if 2 * r > 2 ^ e \<or> (2 * r = 2 ^ e \<and> odd q) then (q + 1) * 2 ^ e else q * 2 ^ e)"

text \<open>
  A \<open>Uint8Array\<close> is a list of bytes. Reading outside it gives \<open>undefined\<close>, a store
  outside it is ignored, a stored number is reduced modulo 256, and \<open>slice\<close> counts a
  negative bound from the end and clamps both bounds to the array.
\<close>

type_synonym Uint8Array = "8 word list"

definition u8_get :: "Uint8Array \<Rightarrow> int \<Rightarrow> jsval" where
  "u8_get d i = (if 0 \<le> i \<and> i < int (length d) then Num (uint (d ! nat i)) else Undefined)"

definition u8_put :: "Uint8Array \<Rightarrow> int \<Rightarrow> int \<Rightarrow> Uint8Array" where
  "u8_put d i v = (if 0 \<le> i \<and> i < int (length d) then d[nat i := word_of_int v] else d)"

definition js_slice :: "'a list \<Rightarrow> int \<Rightarrow> int \<Rightarrow> 'a list" where
  "js_slice d start fin =
     (let len = int (length d);
          k = (if start < 0 then max (len + start) 0 else min start len);
          e = (if fin < 0 then max (len + fin) 0 else min fin len)
      in take (nat (e - k)) (drop (nat k) d))"

definition u8_of_numbers :: "jsval list \<Rightarrow> Uint8Array" where
  "u8_of_numbers xs = map (\<lambda>v. word_of_int (num v)) xs"

text \<open>Errors are values: the classes the code throws, with their messages.\<close>

datatype error =
    Error string
  | RangeError
  | TypeError
  | InvalidPatchFileError string
  | InvalidRomFileError string
  | PatchValidationError string
  | UnsupportedFormatError string

section \<open>The byte cursor (binary-file.ts)\<close>

text \<open>
  \<open>data\<close> and \<open>_u8array\<close> always refer to the same array (the constructor,
  \<open>fromFile\<close> and \<open>expand\<close> set both), so the record has one \<open>data\<close> field.
  \<open>_lastRead\<close> is written and never read; it is left out.
\<close>

record BinFile =
  fileName :: string
  fileSize :: int
  littleEndian :: bool
  offset :: int
  data :: Uint8Array
  offsetsStack :: "int list"

text \<open>\<open>new BinFile(n)\<close> for a number and \<open>new BinFile(bytes)\<close> for a \<open>Uint8Array\<close>.\<close>

definition BinFile_of_size :: "int \<Rightarrow> error + BinFile" where
  "BinFile_of_size n =
     (if n < 0 then Inl RangeError
      else Inr \<lparr>fileName = [], fileSize = n, littleEndian = False, offset = 0,
                data = replicate (nat n) 0, offsetsStack = []\<rparr>)"

definition BinFile_of_bytes :: "Uint8Array \<Rightarrow> BinFile" where
  "BinFile_of_bytes bs =
     \<lparr>fileName = [], fileSize = int (length bs), littleEndian = False, offset = 0,
      data = bs, offsetsStack = []\<rparr>"

definition seek :: "int \<Rightarrow> BinFile \<Rightarrow> BinFile" where
  "seek off f = f\<lparr>offset := max 0 (min off (fileSize f))\<rparr>"

definition tell :: "BinFile \<Rightarrow> int" where
  "tell f = offset f"

definition skip :: "int \<Rightarrow> BinFile \<Rightarrow> BinFile" where
  "skip n f = seek (offset f + n) f"

definition save :: "BinFile \<Rightarrow> BinFile" where
  "save f = f\<lparr>offsetsStack := offsetsStack f @ [offset f]\<rparr>"

definition restore :: "BinFile \<Rightarrow> BinFile" where
  "restore f =
     (if offsetsStack f \<noteq> []
      then f\<lparr>offset := last (offsetsStack f), offsetsStack := butlast (offsetsStack f)\<rparr>
      else f)"

definition setName :: "string \<Rightarrow> BinFile \<Rightarrow> BinFile" where
  "setName name f = f\<lparr>fileName := name\<rparr>"

definition isEOF :: "BinFile \<Rightarrow> bool" where
  "isEOF f = (offset f \<ge> fileSize f)"

definition readU8 :: "BinFile \<Rightarrow> jsval \<times> BinFile" where
  "readU8 f =
     (if offset f \<ge> fileSize f then (Num 0, f)
      else (u8_get (data f) (offset f), f\<lparr>offset := offset f + 1\<rparr>))"



definition readU32 :: "BinFile \<Rightarrow> int \<times> BinFile" where
  "readU32 f =
     (let (byte1, f1) = readU8 f; (byte2, f2) = readU8 f1;
          (byte3, f3) = readU8 f2; (byte4, f4) = readU8 f3
      in (if littleEndian f4
          then js_shr (js_or (js_or (js_or (js_shl (num byte4) 24) (js_shl (num byte3) 16))
                 (js_shl (num byte2) 8)) (num byte1)) 0
          else js_shr (js_or (js_or (js_or (js_shl (num byte1) 24) (js_shl (num byte2) 16))
                 (js_shl (num byte3) 8)) (num byte4)) 0, f4))"

definition readBytes :: "int \<Rightarrow> BinFile \<Rightarrow> Uint8Array \<times> BinFile" where
  "readBytes len f =
     (let e = min (offset f + len) (fileSize f)
      in (js_slice (data f) (offset f) e, f\<lparr>offset := e\<rparr>))"

text \<open>\<open>readString(length, 'ascii')\<close>: one character per byte, by its code.\<close>

definition readString_ascii :: "int \<Rightarrow> BinFile \<Rightarrow> string \<times> BinFile" where
  "readString_ascii len f =
     (let (bytes, f1) = readBytes len f in (map (\<lambda>b. char_of (uint b)) bytes, f1))"

definition expand :: "int \<Rightarrow> BinFile \<Rightarrow> BinFile" where
  "expand newSize f =
     (if newSize \<le> int (length (data f)) then f
      else f\<lparr>data := data f @ replicate (nat newSize - length (data f)) 0\<rparr>)"

definition writeU8 :: "int \<Rightarrow> BinFile \<Rightarrow> BinFile" where
  "writeU8 v f =
     (let f1 = (if offset f \<ge> int (length (data f)) then expand (offset f + 1) f else f);
          f2 = f1\<lparr>data := u8_put (data f1) (offset f1) (js_and v 255)\<rparr>;
          f3 = f2\<lparr>offset := offset f2 + 1\<rparr>
      in if offset f3 > fileSize f3 then f3\<lparr>fileSize := offset f3\<rparr> else f3)"

definition writeU16 :: "int \<Rightarrow> BinFile \<Rightarrow> BinFile" where
  "writeU16 v f =
     (if littleEndian f
      then writeU8 (js_and (js_sar v 8) 255) (writeU8 (js_and v 255) f)
      else writeU8 (js_and v 255) (writeU8 (js_and (js_sar v 8) 255) f))"


definition writeU32 :: "int \<Rightarrow> BinFile \<Rightarrow> BinFile" where
  "writeU32 v f =
     (if littleEndian f
      then writeU8 (js_and (js_sar v 24) 255)
             (writeU8 (js_and (js_sar v 16) 255)
               (writeU8 (js_and (js_sar v 8) 255) (writeU8 (js_and v 255) f)))
      else writeU8 (js_and v 255)
             (writeU8 (js_and (js_sar v 8) 255)
               (writeU8 (js_and (js_sar v 16) 255) (writeU8 (js_and (js_sar v 24) 255) f))))"

text \<open>
  \<open>writeBytes\<close>: \<open>TypedArray.set\<close> throws a RangeError when the offset is negative;
  after \<open>expand\<close> the bytes always fit.
\<close>

definition writeBytes :: "Uint8Array \<Rightarrow> BinFile \<Rightarrow> error + BinFile" where
  "writeBytes bs f =
     (let requiredSize = offset f + int (length bs);
          f1 = (if requiredSize > int (length (data f)) then expand requiredSize f else f)
      in if offset f1 < 0 then Inl RangeError
         else
           (let f2 = f1\<lparr>data := take (nat (offset f1)) (data f1) @ bs
                               @ drop (nat (offset f1) + length bs) (data f1)\<rparr>;
                f3 = f2\<lparr>offset := offset f2 + int (length bs)\<rparr>
            in Inr (if offset f3 > fileSize f3 then f3\<lparr>fileSize := offset f3\<rparr> else f3)))"

definition writeString_ascii :: "string \<Rightarrow> BinFile \<Rightarrow> error + BinFile" where
  "writeString_ascii str f = writeBytes (map (\<lambda>c. word_of_int (js_and (of_char c) 255)) str) f"

text \<open>\<open>truncate\<close> (the record package owns the name \<open>truncate\<close>).\<close>

definition truncate_file :: "int \<Rightarrow> BinFile \<Rightarrow> BinFile" where
  "truncate_file n f =
     (let f1 = f\<lparr>fileSize := min n (int (length (data f)))\<rparr>
      in if offset f1 > fileSize f1 then f1\<lparr>offset := fileSize f1\<rparr> else f1)"

definition clone :: "BinFile \<Rightarrow> BinFile" where
  "clone f =
     (BinFile_of_bytes (js_slice (data f) 0 (int (length (data f)))))
       \<lparr>fileName := fileName f, fileSize := fileSize f,
        littleEndian := littleEndian f, offset := 0\<rparr>"

definition copyTo :: "BinFile \<Rightarrow> BinFile \<Rightarrow> int \<Rightarrow> int option \<Rightarrow> error + BinFile" where
  "copyTo f target targetOffset sourceLength =
     (let len = (case sourceLength of Some l \<Rightarrow> l | None \<Rightarrow> fileSize f - offset f);
          sourceData = js_slice (data f) (offset f) (offset f + len)
      in writeBytes sourceData (seek targetOffset target))"

definition getBytes :: "BinFile \<Rightarrow> Uint8Array" where
  "getBytes f = js_slice (data f) 0 (fileSize f)"

text \<open>The invariant of the data model: \<open>0 \<le> offset \<le> size \<le> capacity\<close>.\<close>

definition binfile_inv :: "BinFile \<Rightarrow> bool" where
  "binfile_inv f \<longleftrightarrow> 0 \<le> offset f \<and> offset f \<le> fileSize f \<and> fileSize f \<le> int (length (data f))"

section \<open>Checksums (binary-file.ts, vcdiff.ts)\<close>

text \<open>
  \<open>_getCRC32Table\<close> builds the 256 entries by eight shift-and-xor steps each;
  \<open>hashCRC32\<close> folds the table over the bytes of \<open>data.slice(startOffset, end)\<close>,
  where \<open>end\<close> is the file size unless the caller gives one.
\<close>

definition CRC32_step :: "int \<Rightarrow> int" where
  "CRC32_step c = (if js_and c 1 \<noteq> 0 then js_xor 3988292384 (js_shr c 1) else js_shr c 1)"

definition getCRC32Table :: "int list" where
  "getCRC32Table = map (\<lambda>n. (CRC32_step ^^ 8) (int n)) [0..<256]"

definition crc32_update :: "int list \<Rightarrow> int \<Rightarrow> 8 word \<Rightarrow> int" where
  "crc32_update table crc b =
     js_xor (table ! nat (js_and (js_xor crc (uint b)) 255)) (js_shr crc 8)"

definition hashCRC32 :: "int \<Rightarrow> int option \<Rightarrow> BinFile \<Rightarrow> int" where
  "hashCRC32 startOffset endOffset f =
     (let e = (case endOffset of Some x \<Rightarrow> x | None \<Rightarrow> fileSize f);
          d = js_slice (data f) startOffset e;
          table = getCRC32Table;
          crc = foldl (crc32_update table) 4294967295 d
      in js_shr (js_xor crc 4294967295) 0)"

text \<open>
  \<open>hashMD5\<close> is \<open>_simpleHash('md5')\<close>: a 32-bit rolling hash, its absolute value
  printed in hexadecimal and padded with zeros to 32 characters.
\<close>

definition simpleHash_update :: "int \<Rightarrow> 8 word \<Rightarrow> int" where
  "simpleHash_update hash b = js_and (js_shl hash 5 - hash + uint b) 4294967295"

fun hex_digits :: "nat \<Rightarrow> string" where
  "hex_digits n =
     (if n < 16 then [''0123456789abcdef'' ! n]
      else hex_digits (n div 16) @ [''0123456789abcdef'' ! (n mod 16)])"

definition toString16 :: "int \<Rightarrow> string" where
  "toString16 n = (if n < 0 then CHR ''-'' # hex_digits (nat (- n)) else hex_digits (nat n))"

definition padStart :: "nat \<Rightarrow> char \<Rightarrow> string \<Rightarrow> string" where
  "padStart n c s = replicate (n - length s) c @ s"

definition simpleHash :: "string \<Rightarrow> BinFile \<Rightarrow> string" where
  "simpleHash algorithm f =
     (let d = js_slice (data f) 0 (fileSize f);
          hash = foldl simpleHash_update 0 d
      in padStart (if algorithm = ''md5'' then 32 else 40) (CHR ''0'') (toString16 \<bar>hash\<bar>))"

definition hashMD5 :: "BinFile \<Rightarrow> string" where
  "hashMD5 f = simpleHash ''md5'' f"

text \<open>
  \<open>VCDIFFPatch.adler32(file, offset, length)\<close>. A read outside the array is
  \<open>undefined\<close>, which turns both sums into NaN for the rest of the loop (the state
  \<open>None\<close>); the final \<open>(b << 16) | a\<close> of two NaNs is 0.
\<close>

definition MOD_ADLER :: int where
  "MOD_ADLER = 65521"

fun adler32_loop ::
  "Uint8Array \<Rightarrow> int \<Rightarrow> nat \<Rightarrow> (int \<times> int) option \<Rightarrow> (int \<times> int) option" where
  "adler32_loop arr i 0 st = st"
| "adler32_loop arr i (Suc n) st =
     adler32_loop arr (i + 1) n
       (case st of None \<Rightarrow> None
        | Some (a, b) \<Rightarrow>
            (case u8_get arr i of Undefined \<Rightarrow> None
             | Num x \<Rightarrow> (let a1 = (a + x) mod MOD_ADLER in Some (a1, (b + a1) mod MOD_ADLER))))"

definition adler32 :: "BinFile \<Rightarrow> int \<Rightarrow> int \<Rightarrow> int" where
  "adler32 file off len =
     (case adler32_loop (data file) off (nat len) (Some (1, 0)) of
        None \<Rightarrow> 0
      | Some (a, b) \<Rightarrow> js_or (js_shl b 16) a)"

section \<open>Variable-length values\<close>

subsection \<open>\<open>BinFile.readVLV\<close> and \<open>BinFile.writeVLV\<close> (binary-file.ts)\<close>

text \<open>
  The reader's loop continues only after a byte with the high bit set, which is a byte
  read inside the data: the distance to the end of the data decreases, so the loop ends
  on every buffer.
\<close>

function readVLV_loop :: "int \<Rightarrow> int \<Rightarrow> BinFile \<Rightarrow> int \<times> BinFile" where
  "readVLV_loop val shift f =
     (case readU8 f of (byte, f1) \<Rightarrow>
        (let val1 = val + js_and (num byte) 127 * shift
         in if js_and (num byte) 128 = 0 then (val1, f1)
            else (let shift1 = js_shl shift 7 in readVLV_loop (val1 + shift1) shift1 f1)))"
  by pat_completeness auto
termination
proof (relation "measure (\<lambda>(val, shift, f). nat (fileSize f - offset f))")
  show "wf (measure (\<lambda>(val, shift, f). nat (fileSize f - offset f)))" by simp
next
  fix val shift :: int and f f1 :: BinFile and byte val1 shift1
  assume r: "(byte, f1) = readU8 f" and c: "js_and (num byte) 128 \<noteq> 0"
  have less: "offset f < fileSize f"
  proof (rule ccontr)
    assume "\<not> offset f < fileSize f"
    with r have "byte = Num 0" by (simp add: readU8_def)
    with c show False by (simp add: js_and_def ToInt32_def)
  qed
  with r have "f1 = f\<lparr>offset := offset f + 1\<rparr>" by (simp add: readU8_def)
  with less
  show "((val1 + shift1, shift1, f1), (val, shift, f))
          \<in> measure (\<lambda>(val, shift, f). nat (fileSize f - offset f))"
    by simp
qed

definition readVLV :: "BinFile \<Rightarrow> int \<times> BinFile" where
  "readVLV f = readVLV_loop 0 1 f"

text \<open>
  The writer's loop ends when \<open>value >>= 7\<close> reaches 0. \<open>>>\<close> is the signed 32-bit
  shift, so a value whose bit 31 is set never reaches 0: the result is \<open>None\<close> when the
  loop does not end.
\<close>

partial_function (option) writeVLV :: "int \<Rightarrow> BinFile \<Rightarrow> BinFile option" where
  "writeVLV val f =
     (let byte = js_and val 127; val1 = js_sar val 7
      in if val1 = 0 then Some (writeU8 byte f)
         else writeVLV val1 (writeU8 (js_or byte 128) f))"

declare writeVLV.simps [code]

subsection \<open>\<open>RUPPatch.readVLV\<close>, \<open>writeVLV\<close> and \<open>getVLVLength\<close> (rup.ts)\<close>

fun RUP_readVLV_loop :: "nat \<Rightarrow> int \<Rightarrow> int \<Rightarrow> BinFile \<Rightarrow> int \<times> BinFile" where
  "RUP_readVLV_loop 0 i d f = (d, f)"
| "RUP_readVLV_loop (Suc k) i d f =
     (case readU8 f of (b, f1) \<Rightarrow> RUP_readVLV_loop k (i + 1) (d + js_shl (num b) (i * 8)) f1)"

definition RUP_readVLV :: "BinFile \<Rightarrow> int \<times> BinFile" where
  "RUP_readVLV f =
     (case readU8 f of (nBytes, f1) \<Rightarrow>
        RUP_readVLV_loop (case nBytes of Num n \<Rightarrow> nat n | Undefined \<Rightarrow> 0) 0 0 f1)"

partial_function (option) RUP_getVLVLength_loop :: "int \<Rightarrow> int \<Rightarrow> int option" where
  "RUP_getVLVLength_loop ret d =
     (if d \<noteq> 0 then RUP_getVLVLength_loop (ret + 1) (js_sar d 8) else Some ret)"

declare RUP_getVLVLength_loop.simps [code]

definition RUP_getVLVLength :: "int \<Rightarrow> int option" where
  "RUP_getVLVLength d = RUP_getVLVLength_loop 1 d"

partial_function (option) RUP_writeVLV_loop :: "int \<Rightarrow> BinFile \<Rightarrow> BinFile option" where
  "RUP_writeVLV_loop d f =
     (if d \<noteq> 0 then RUP_writeVLV_loop (js_sar d 8) (writeU8 (js_and d 255) f) else Some f)"

declare RUP_writeVLV_loop.simps [code]

definition RUP_writeVLV :: "BinFile \<Rightarrow> int \<Rightarrow> BinFile option" where
  "RUP_writeVLV f d =
     (case RUP_getVLVLength d of
        None \<Rightarrow> None
      | Some l \<Rightarrow> RUP_writeVLV_loop d (writeU8 (l - 1) f))"

section \<open>File names\<close>

text \<open>
  Strings are lists of 8-bit code units. \<open>lastIndexOf\<close> gives \<open>-1\<close> when the
  character does not occur; \<open>toLowerCase\<close> acts on the letters of that range.
\<close>

definition lastIndexOf :: "char \<Rightarrow> string \<Rightarrow> int" where
  "lastIndexOf c s =
     (case filter (\<lambda>i. s ! i = c) (rev [0..<length s]) of [] \<Rightarrow> - 1 | i # _ \<Rightarrow> int i)"

definition toLowerCase_char :: "char \<Rightarrow> char" where
  "toLowerCase_char c =
     (let n = (of_char c :: nat)
      in if (65 \<le> n \<and> n \<le> 90) \<or> (192 \<le> n \<and> n \<le> 214) \<or> (216 \<le> n \<and> n \<le> 222)
         then char_of (n + 32) else c)"

definition toLowerCase :: "string \<Rightarrow> string" where
  "toLowerCase s = map toLowerCase_char s"

definition getExtension :: "BinFile \<Rightarrow> string" where
  "getExtension f =
     (let lastDot = lastIndexOf (CHR ''.'') (fileName f)
      in if lastDot \<noteq> - 1 then toLowerCase (drop (nat (lastDot + 1)) (fileName f)) else [])"

definition getName :: "BinFile \<Rightarrow> string" where
  "getName f =
     (let lastSlash = max (lastIndexOf (CHR ''/'') (fileName f))
                          (lastIndexOf (CHR 0x5C) (fileName f));
          nameWithExt = (if lastSlash \<noteq> - 1 then drop (nat (lastSlash + 1)) (fileName f)
                         else fileName f);
          lastDot = lastIndexOf (CHR ''.'') nameWithExt
      in if lastDot \<noteq> - 1 then take (nat lastDot) nameWithExt else nameWithExt)"

text \<open>The name every \<open>apply\<close> gives its result: \<open>`${baseName} (patched)${suffix}`\<close>.\<close>

definition patchedName :: "BinFile \<Rightarrow> string" where
  "patchedName romFile =
     (let baseName = getName romFile;
          extension = getExtension romFile;
          suffix = (if extension \<noteq> [] then CHR ''.'' # extension else [])
      in baseName @ '' (patched)'' @ suffix)"

section \<open>BPS (bps.ts)\<close>

text \<open>
  An action's \<open>type\<close> is the low two bits of its action word, so it is one of four
  kinds; \<open>bytes\<close> comes with a TargetRead and \<open>relativeOffset\<close> with the two copies.
\<close>

datatype BPSAction =
    SourceRead int
  | TargetRead int "int list"
  | SourceCopy int int
  | TargetCopy int int

record BPSPatch =
  bps_sourceSize :: int
  bps_targetSize :: int
  bps_metaData :: string
  bps_actions :: "BPSAction list"
  bps_sourceChecksum :: int
  bps_targetChecksum :: int
  bps_patchChecksum :: int

definition BPS_validateSource :: "BPSPatch \<Rightarrow> BinFile \<Rightarrow> int \<Rightarrow> bool" where
  "BPS_validateSource p romFile headerSize \<longleftrightarrow>
     bps_sourceChecksum p = hashCRC32 headerSize None romFile"

text \<open>
  \<open>while (actionLength--)\<close> stops when the counter is 0 before the decrement; a
  negative length never gets there, and the loop's result is \<open>None\<close>.
\<close>

partial_function (option) BPS_sourceCopy_loop ::
  "int \<Rightarrow> Uint8Array \<Rightarrow> int \<Rightarrow> BinFile \<Rightarrow> (int \<times> BinFile) option" where
  "BPS_sourceCopy_loop actionLength src sourceRelativeOffset tempFile =
     (if actionLength \<noteq> 0
      then BPS_sourceCopy_loop (actionLength - 1) src (sourceRelativeOffset + 1)
             (writeU8 (num (u8_get src sourceRelativeOffset)) tempFile)
      else Some (sourceRelativeOffset, tempFile))"

declare BPS_sourceCopy_loop.simps [code]

partial_function (option) BPS_targetCopy_loop ::
  "int \<Rightarrow> int \<Rightarrow> BinFile \<Rightarrow> (int \<times> BinFile) option" where
  "BPS_targetCopy_loop actionLength targetRelativeOffset tempFile =
     (if actionLength \<noteq> 0
      then BPS_targetCopy_loop (actionLength - 1) (targetRelativeOffset + 1)
             (writeU8 (num (u8_get (data tempFile) targetRelativeOffset)) tempFile)
      else Some (targetRelativeOffset, tempFile))"

declare BPS_targetCopy_loop.simps [code]

text \<open>
  One turn of the loop over the actions, on the output file and the two relative
  offsets. The outer \<open>option\<close> is \<open>None\<close> when a copy loop does not end.
\<close>

fun BPS_apply_action ::
  "BinFile \<Rightarrow> BPSAction \<Rightarrow> BinFile \<times> int \<times> int \<Rightarrow> (error + BinFile \<times> int \<times> int) option" where
  "BPS_apply_action romFile (SourceRead len) (tempFile, sro, tro) =
     (case copyTo romFile tempFile (offset tempFile) (Some len) of
        Inl e \<Rightarrow> Some (Inl e)
      | Inr t1 \<Rightarrow> Some (Inr (skip len t1, sro, tro)))"
| "BPS_apply_action romFile (TargetRead len bytes) (tempFile, sro, tro) =
     (case writeBytes (map word_of_int bytes) tempFile of
        Inl e \<Rightarrow> Some (Inl e)
      | Inr t1 \<Rightarrow> Some (Inr (t1, sro, tro)))"
| "BPS_apply_action romFile (SourceCopy len relativeOffset) (tempFile, sro, tro) =
     (case BPS_sourceCopy_loop len (data romFile) (sro + relativeOffset) tempFile of
        None \<Rightarrow> None
      | Some (sro1, t1) \<Rightarrow> Some (Inr (t1, sro1, tro)))"
| "BPS_apply_action romFile (TargetCopy len relativeOffset) (tempFile, sro, tro) =
     (case BPS_targetCopy_loop len (tro + relativeOffset) tempFile of
        None \<Rightarrow> None
      | Some (tro1, t1) \<Rightarrow> Some (Inr (t1, sro, tro1)))"

fun BPS_apply_actions ::
  "BinFile \<Rightarrow> BPSAction list \<Rightarrow> BinFile \<times> int \<times> int \<Rightarrow> (error + BinFile \<times> int \<times> int) option" where
  "BPS_apply_actions romFile [] st = Some (Inr st)"
| "BPS_apply_actions romFile (a # as) st =
     (case BPS_apply_action romFile a st of
        None \<Rightarrow> None
      | Some (Inl e) \<Rightarrow> Some (Inl e)
      | Some (Inr st1) \<Rightarrow> BPS_apply_actions romFile as st1)"

definition BPS_apply :: "BPSPatch \<Rightarrow> BinFile \<Rightarrow> bool \<Rightarrow> (error + BinFile) option" where
  "BPS_apply p romFile validate =
     (if validate \<and> \<not> BPS_validateSource p romFile 0
      then Some (Inl (Error ''Source ROM checksum mismatch''))
      else
        (case BinFile_of_size (bps_targetSize p) of
           Inl e \<Rightarrow> Some (Inl e)
         | Inr tempFile \<Rightarrow>
             (case BPS_apply_actions romFile (bps_actions p) (tempFile, 0, 0) of
                None \<Rightarrow> None
              | Some (Inl e) \<Rightarrow> Some (Inl e)
              | Some (Inr (t1, sro, tro)) \<Rightarrow>
                  (if validate \<and> bps_targetChecksum p \<noteq> hashCRC32 0 None t1
                   then Some (Inl (Error ''Target ROM checksum mismatch''))
                   else Some (Inr (setName (patchedName romFile) t1))))))"

section \<open>UPS (ups.ts)\<close>

record UPSRecord =
  ups_offset :: int
  XORdata :: "int list"

record UPSPatch =
  upsRecords :: "UPSRecord list"
  sizeInput :: int
  sizeOutput :: int
  checksumInput :: int
  checksumOutput :: int

definition UPS_validateSource :: "UPSPatch \<Rightarrow> BinFile \<Rightarrow> int \<Rightarrow> bool" where
  "UPS_validateSource p romFile headerSize \<longleftrightarrow>
     hashCRC32 headerSize None romFile = checksumInput p"

text \<open>The inner loop over the XOR bytes of one record; both cursors move.\<close>

fun UPS_xor_loop :: "int list \<Rightarrow> BinFile \<times> BinFile \<Rightarrow> BinFile \<times> BinFile" where
  "UPS_xor_loop [] (tempFile, romFile) = (tempFile, romFile)"
| "UPS_xor_loop (xorByte # rest) (tempFile, romFile) =
     (let (originalByte, r1) = (if isEOF romFile then (Num 0, romFile) else readU8 romFile)
      in UPS_xor_loop rest (writeU8 (js_xor (num originalByte) xorByte) tempFile, r1))"

fun UPS_apply_records ::
  "UPSRecord list \<Rightarrow> int \<Rightarrow> BinFile \<times> BinFile \<Rightarrow> BinFile \<times> BinFile" where
  "UPS_apply_records [] absoluteOffset st = st"
| "UPS_apply_records (r # rs) absoluteOffset (tempFile, romFile) =
     (let abs1 = absoluteOffset + ups_offset r;
          st1 = UPS_xor_loop (XORdata r) (seek abs1 tempFile, seek abs1 romFile)
      in UPS_apply_records rs (abs1 + int (length (XORdata r))) st1)"

text \<open>
  \<open>apply\<close> returns the patched file; the source's cursor has moved, so the source is
  returned with it.
\<close>

definition UPS_apply :: "UPSPatch \<Rightarrow> BinFile \<Rightarrow> error + BinFile \<times> BinFile" where
  "UPS_apply p romFile =
     (if \<not> UPS_validateSource p romFile 0
      then Inl (Error ''Source ROM checksum mismatch'')
      else
        (let sizeInput1 = (if sizeInput p < fileSize romFile then fileSize romFile else sizeInput p);
             sizeOutput1 = (if sizeInput p < fileSize romFile \<and> sizeOutput p < sizeInput1
                            then sizeInput1 else sizeOutput p)
         in case BinFile_of_size sizeOutput1 of
              Inl e \<Rightarrow> Inl e
            | Inr t0 \<Rightarrow>
                (case copyTo romFile t0 0 (Some sizeInput1) of
                   Inl e \<Rightarrow> Inl e
                 | Inr t1 \<Rightarrow>
                     (let (tempFile, rom1) = UPS_apply_records (upsRecords p) 0 (t1, romFile)
                      in if hashCRC32 0 None tempFile \<noteq> checksumOutput p
                         then Inl (Error ''Target ROM checksum mismatch'')
                         else Inr (setName (patchedName romFile) tempFile, rom1)))))"

section \<open>IPS (ips.ts)\<close>

definition IPS_RECORD_RLE :: int where
  "IPS_RECORD_RLE = 0"

definition IPS_RECORD_SIMPLE :: int where
  "IPS_RECORD_SIMPLE = 1"

text \<open>
  A \<open>PatchRecord\<close> has \<open>offset\<close>, \<open>type\<close>, \<open>length\<close> and the optional \<open>data\<close> and
  \<open>byte\<close>; \<open>truncate\<close> is a number or \<open>false\<close> (\<open>None\<close>), \<open>metadata\<close> an object
  of strings or \<open>null\<close>.
\<close>

record PatchRecord =
  rec_offset :: int
  rec_type :: int
  rec_length :: int
  rec_data :: "Uint8Array option"
  rec_byte :: jsval

record IPSPatch =
  ips_records :: "PatchRecord list"
  ips_truncate :: "int option"
  ips_metadata :: "(string \<times> string) list option"

definition IPSPatch_new :: IPSPatch where
  "IPSPatch_new = \<lparr>ips_records = [], ips_truncate = None, ips_metadata = None\<rparr>"

definition addSimpleRecord :: "int \<Rightarrow> Uint8Array \<Rightarrow> IPSPatch \<Rightarrow> IPSPatch" where
  "addSimpleRecord off d p =
     p\<lparr>ips_records := ips_records p @
        [\<lparr>rec_offset = off, rec_type = IPS_RECORD_SIMPLE, rec_length = int (length d),
          rec_data = Some d, rec_byte = Undefined\<rparr>]\<rparr>"

definition addRLERecord :: "int \<Rightarrow> int \<Rightarrow> jsval \<Rightarrow> IPSPatch \<Rightarrow> IPSPatch" where
  "addRLERecord off len byte p =
     p\<lparr>ips_records := ips_records p @
        [\<lparr>rec_offset = off, rec_type = IPS_RECORD_RLE, rec_length = len,
          rec_data = None, rec_byte = byte\<rparr>]\<rparr>"

text \<open>
  An object is the list of its properties in the order JavaScript enumerates them: the
  keys that are array indices (a decimal number below \<open>2^32 - 1\<close> with no leading zero)
  in ascending order, then the other keys in the order of their creation.
\<close>

definition arrayIndexValue :: "string \<Rightarrow> int" where
  "arrayIndexValue k = foldl (\<lambda>n c. 10 * n + (of_char c - 48)) 0 k"

definition isArrayIndex :: "string \<Rightarrow> bool" where
  "isArrayIndex k =
     (if k = [] then False
      else if k = ''0'' then True
      else if hd k = CHR ''0'' then False
      else list_all (\<lambda>c. (48::nat) \<le> of_char c \<and> of_char c \<le> (57::nat)) k
           \<and> arrayIndexValue k < 4294967295)"

definition js_property_order :: "(string \<times> string) list \<Rightarrow> (string \<times> string) list" where
  "js_property_order kvs =
     sort_key (\<lambda>kv. arrayIndexValue (fst kv)) (filter (\<lambda>kv. isArrayIndex (fst kv)) kvs)
     @ filter (\<lambda>kv. \<not> isArrayIndex (fst kv)) kvs"

text \<open>
  \<open>{ patcher: 'EBPatcher', ...metadataObject }\<close>, for an object with distinct keys:
  \<open>patcher\<close> is created first and takes the value \<open>metadataObject\<close> gives it, if any.
\<close>

definition setEBPMetadata :: "(string \<times> string) list \<Rightarrow> IPSPatch \<Rightarrow> IPSPatch" where
  "setEBPMetadata metadataObject p =
     p\<lparr>ips_metadata := Some
        (js_property_order
           ((''patcher'', case map_of metadataObject ''patcher'' of
                             Some v \<Rightarrow> v | None \<Rightarrow> ''EBPatcher'')
            # filter (\<lambda>kv. fst kv \<noteq> ''patcher'') metadataObject))\<rparr>"

subsection \<open>\<open>IPSPatch.apply\<close>\<close>

definition IPS_maxOffset :: "PatchRecord list \<Rightarrow> int \<Rightarrow> int" where
  "IPS_maxOffset rs start =
     foldl (\<lambda>maxOffset r. if rec_offset r + rec_length r > maxOffset
                            then rec_offset r + rec_length r else maxOffset) start rs"

text \<open>
  One record: an RLE record writes its byte \<open>length\<close> times, a simple record writes its
  data (a record without data makes \<open>writeBytes\<close> fail on \<open>data.length\<close>).
\<close>

definition IPS_apply_record :: "PatchRecord \<Rightarrow> BinFile \<Rightarrow> error + BinFile" where
  "IPS_apply_record r f =
     (if rec_type r = IPS_RECORD_RLE
      then Inr ((writeU8 (num (rec_byte r)) ^^ nat (rec_length r)) (seek (rec_offset r) f))
      else (case rec_data r of
              None \<Rightarrow> Inl TypeError
            | Some d \<Rightarrow> writeBytes d (seek (rec_offset r) f)))"

fun IPS_apply_records :: "PatchRecord list \<Rightarrow> BinFile \<Rightarrow> error + BinFile" where
  "IPS_apply_records [] f = Inr f"
| "IPS_apply_records (r # rs) f =
     (case IPS_apply_record r f of Inl e \<Rightarrow> Inl e | Inr f1 \<Rightarrow> IPS_apply_records rs f1)"

definition IPS_apply :: "IPSPatch \<Rightarrow> BinFile \<Rightarrow> error + BinFile" where
  "IPS_apply p romFile =
     (case IPS_apply_records (ips_records p)
             (if IPS_maxOffset (ips_records p) (fileSize (clone romFile)) > fileSize (clone romFile)
              then expand (IPS_maxOffset (ips_records p) (fileSize (clone romFile))) (clone romFile)
              else clone romFile) of
        Inl e \<Rightarrow> Inl e
      | Inr patchedRom \<Rightarrow>
          Inr (setName (patchedName romFile)
                (case ips_truncate p of
                   None \<Rightarrow> patchedRom
                 | Some n \<Rightarrow> if n \<noteq> 0 then truncate_file n patchedRom else patchedRom)))"

subsection \<open>\<open>IPS.create\<close>\<close>

text \<open>
  The two bytes the builder compares at an offset. As the code has it, the modified
  byte is read from \<open>originalFile.data\<close> too; only the bound is the modified file's.
\<close>

definition IPS_originalByte :: "BinFile \<Rightarrow> int \<Rightarrow> jsval" where
  "IPS_originalByte originalFile off =
     (if off < fileSize originalFile then u8_get (data originalFile) off else Num 0)"

definition IPS_modifiedByte :: "BinFile \<Rightarrow> BinFile \<Rightarrow> int \<Rightarrow> jsval" where
  "IPS_modifiedByte originalFile modifiedFile off =
     (if off < fileSize modifiedFile then u8_get (data originalFile) off else Num 0)"

function IPS_collect ::
  "BinFile \<Rightarrow> BinFile \<Rightarrow> int \<Rightarrow> int \<Rightarrow> jsval list \<Rightarrow> jsval list \<times> int" where
  "IPS_collect originalFile modifiedFile maxSize off changes =
     (if off < maxSize
      then (if IPS_originalByte originalFile off \<noteq> IPS_modifiedByte originalFile modifiedFile off
            then IPS_collect originalFile modifiedFile maxSize (off + 1)
                   (changes @ [IPS_modifiedByte originalFile modifiedFile off])
            else (changes, off))
      else (changes, off))"
  by pat_completeness auto
termination
  by (relation "measure (\<lambda>(originalFile, modifiedFile, maxSize, off, changes). nat (maxSize - off))")
    auto

declare IPS_collect.simps [simp del]

lemma IPS_collect_offset: "off \<le> snd (IPS_collect originalFile modifiedFile maxSize off changes)"
proof (induction originalFile modifiedFile maxSize off changes rule: IPS_collect.induct)
  case (1 originalFile modifiedFile maxSize off changes)
  show ?case
  proof (cases "off < maxSize \<and>
      IPS_originalByte originalFile off \<noteq> IPS_modifiedByte originalFile modifiedFile off")
    case True
    with "1.IH" have "off + 1 \<le> snd (IPS_collect originalFile modifiedFile maxSize (off + 1)
        (changes @ [IPS_modifiedByte originalFile modifiedFile off]))"
      by simp
    with True show ?thesis by (subst IPS_collect.simps) simp
  next
    case False
    then show ?thesis by (subst IPS_collect.simps) auto
  qed
qed

lemma IPS_collect_advances:
  assumes "off < maxSize"
    and "IPS_originalByte originalFile off \<noteq> IPS_modifiedByte originalFile modifiedFile off"
  shows "off < snd (IPS_collect originalFile modifiedFile maxSize off changes)"
proof -
  have "off + 1 \<le> snd (IPS_collect originalFile modifiedFile maxSize (off + 1)
      (changes @ [IPS_modifiedByte originalFile modifiedFile off]))"
    by (rule IPS_collect_offset)
  with assms show ?thesis by (subst IPS_collect.simps) simp
qed

function IPS_create_loop ::
  "BinFile \<Rightarrow> BinFile \<Rightarrow> int \<Rightarrow> int \<Rightarrow> IPSPatch \<Rightarrow> IPSPatch" where
  "IPS_create_loop originalFile modifiedFile maxSize off patch =
     (if off < maxSize
      then (if IPS_originalByte originalFile off \<noteq> IPS_modifiedByte originalFile modifiedFile off
            then (case IPS_collect originalFile modifiedFile maxSize off [] of
                    (changes, off1) \<Rightarrow>
                      IPS_create_loop originalFile modifiedFile maxSize off1
                        (if length changes > 3 \<and> list_all (\<lambda>b. b = hd changes) changes
                         then addRLERecord off (int (length changes)) (hd changes) patch
                         else addSimpleRecord off (u8_of_numbers changes) patch))
            else IPS_create_loop originalFile modifiedFile maxSize (off + 1) patch)
      else patch)"
  by pat_completeness auto
termination
proof (relation "measure (\<lambda>(originalFile, modifiedFile, maxSize, off, patch). nat (maxSize - off))",
    goal_cases)
  case 1
  show ?case by simp
next
  case (2 originalFile modifiedFile maxSize off patch changes off1)
  from IPS_collect_advances [OF 2(1,2), of "[]"] 2(3) have "off < off1"
    by (metis snd_conv)
  with 2(1) show ?case by simp
next
  case 3
  then show ?case by simp
qed

declare IPS_create_loop.simps [simp del]

definition IPS_create ::
  "BinFile \<Rightarrow> BinFile \<Rightarrow> (string \<times> string) list option \<Rightarrow> IPSPatch" where
  "IPS_create originalFile modifiedFile metadata =
     (let patch0 = (case metadata of None \<Rightarrow> IPSPatch_new
                    | Some m \<Rightarrow> setEBPMetadata m IPSPatch_new);
          maxSize = max (fileSize originalFile) (fileSize modifiedFile);
          patch1 = IPS_create_loop originalFile modifiedFile maxSize 0 patch0
      in if fileSize modifiedFile < fileSize originalFile
         then patch1\<lparr>ips_truncate := Some (fileSize modifiedFile)\<rparr>
         else patch1)"

section \<open>Sequences of writes\<close>

text \<open>
  The exporters are straight-line sequences of writes on one file. A step either
  returns the updated file or fails (\<open>writeBytes\<close> can); \<open>run_writes\<close> performs the
  steps in order and stops at the first failure.
\<close>

type_synonym write_step = "BinFile \<Rightarrow> error + BinFile"

definition ok :: "(BinFile \<Rightarrow> BinFile) \<Rightarrow> write_step" where
  "ok g f = Inr (g f)"

fun run_writes :: "write_step list \<Rightarrow> BinFile \<Rightarrow> error + BinFile" where
  "run_writes [] f = Inr f"
| "run_writes (w # ws) f = (case w f of Inl e \<Rightarrow> Inl e | Inr f1 \<Rightarrow> run_writes ws f1)"

section \<open>Strings and numbers as text\<close>

fun dec_digits :: "nat \<Rightarrow> string" where
  "dec_digits n =
     (if n < 10 then [''0123456789'' ! n]
      else dec_digits (n div 10) @ [''0123456789'' ! (n mod 10)])"

definition toString10 :: "int \<Rightarrow> string" where
  "toString10 n = (if n < 0 then CHR ''-'' # dec_digits (nat (- n)) else dec_digits (nat n))"

definition padEnd :: "nat \<Rightarrow> char \<Rightarrow> string \<Rightarrow> string" where
  "padEnd n c s = s @ replicate (n - length s) c"

text \<open>
  \<open>parseInt\<close>: leading white space, an optional sign, then the longest run of digits
  (hexadecimal after \<open>0x\<close>); \<open>None\<close> is NaN.
\<close>

definition isWhiteSpace :: "char \<Rightarrow> bool" where
  "isWhiteSpace c \<longleftrightarrow> (of_char c :: nat) \<in> set [9, 10, 11, 12, 13, 32, 160]"

definition digitValue :: "char \<Rightarrow> nat option" where
  "digitValue c =
     (let n = (of_char c :: nat)
      in if 48 \<le> n \<and> n \<le> 57 then Some (n - 48)
         else if 97 \<le> n \<and> n \<le> 102 then Some (n - 87)
         else if 65 \<le> n \<and> n \<le> 70 then Some (n - 55)
         else None)"

definition isDigitIn :: "nat \<Rightarrow> char \<Rightarrow> bool" where
  "isDigitIn radix c = (case digitValue c of None \<Rightarrow> False | Some d \<Rightarrow> d < radix)"

definition digitsValue :: "nat \<Rightarrow> string \<Rightarrow> int" where
  "digitsValue radix ds = foldl (\<lambda>acc c. acc * int radix + int (the (digitValue c))) 0 ds"

definition parseDigits :: "nat \<Rightarrow> string \<Rightarrow> int option" where
  "parseDigits radix s =
     (if takeWhile (isDigitIn radix) s = [] then None
      else Some (digitsValue radix (takeWhile (isDigitIn radix) s)))"

definition parseUnsigned :: "string \<Rightarrow> int option" where
  "parseUnsigned s =
     (if take 2 s = ''0x'' \<or> take 2 s = ''0X'' then parseDigits 16 (drop 2 s)
      else parseDigits 10 s)"

definition parseInt :: "string \<Rightarrow> int option" where
  "parseInt s =
     (case dropWhile isWhiteSpace s of
        [] \<Rightarrow> None
      | c # rest \<Rightarrow>
          if c = CHR ''-'' then map_option uminus (parseUnsigned rest)
          else if c = CHR ''+'' then parseUnsigned rest
          else parseUnsigned (c # rest))"

text \<open>\<open>s.indexOf(t)\<close>: the first position where \<open>t\<close> starts, or \<open>-1\<close>.\<close>

definition indexOf :: "string \<Rightarrow> string \<Rightarrow> int" where
  "indexOf s t =
     (case filter (\<lambda>i. prefix t (drop i s)) [0..<Suc (length s)] of
        [] \<Rightarrow> - 1 | i # _ \<Rightarrow> int i)"

definition stripTrailingSpaces :: "string \<Rightarrow> string" where
  "stripTrailingSpaces s = rev (dropWhile (\<lambda>c. c = CHR '' '') (rev s))"

section \<open>PPF (ppf.ts)\<close>

definition PPF_MAGIC :: string where
  "PPF_MAGIC = ''PPF''"

definition PPF_BEGIN_FILE_ID_DIZ_MAGIC :: string where
  "PPF_BEGIN_FILE_ID_DIZ_MAGIC = ''@BEGIN_FILE_ID.DIZ''"

text \<open>\<open>blockCheck\<close> is a boolean or the array of the 1024 checked bytes.\<close>

datatype BlockCheck = BlockCheckFlag bool | BlockCheckBytes "int list"

record PPFRecord =
  ppf_offset :: int
  ppf_data :: "int list"
  ppf_undoData :: "int list option"

record PPFPatch =
  ppf_version :: int
  ppf_imageType :: int
  ppf_blockCheck :: BlockCheck
  ppf_undo :: bool
  ppf_records :: "PPFRecord list"
  ppf_description :: string
  ppf_fileIdDiz :: "string option"
  ppf_inputFileSize :: "int option"

definition PPFPatch_new :: PPFPatch where
  "PPFPatch_new =
     \<lparr>ppf_version = 3, ppf_imageType = 0, ppf_blockCheck = BlockCheckFlag False,
      ppf_undo = False, ppf_records = [], ppf_description = ''Patch description'',
      ppf_fileIdDiz = None, ppf_inputFileSize = None\<rparr>"

definition blockCheck_truthy :: "BlockCheck \<Rightarrow> bool" where
  "blockCheck_truthy b = (case b of BlockCheckFlag x \<Rightarrow> x | BlockCheckBytes _ \<Rightarrow> True)"

definition fileIdDiz_truthy :: "string option \<Rightarrow> bool" where
  "fileIdDiz_truthy d = (case d of None \<Rightarrow> False | Some s \<Rightarrow> s \<noteq> [])"

definition u8_of_ints :: "int list \<Rightarrow> Uint8Array" where
  "u8_of_ints xs = map word_of_int xs"

subsection \<open>\<open>PPFPatch.export\<close>\<close>

definition PPF_patchFileSize :: "PPFPatch \<Rightarrow> int" where
  "PPF_patchFileSize p =
     5 + 1 + 50
     + foldl (\<lambda>n r. n + 4 + 1 + int (length (ppf_data r)) + (if ppf_version p = 3 then 4 else 0))
         0 (ppf_records p)
     + (if ppf_version p = 3 \<or> ppf_version p = 2 then 4 else 0)
     + (if blockCheck_truthy (ppf_blockCheck p) then 1024 else 0)
     + (if fileIdDiz_truthy (ppf_fileIdDiz p)
        then 18 + int (length (the (ppf_fileIdDiz p))) + 16 + 4 else 0)"

text \<open>
  The writes of one record. For version 3 the offset goes out as two 32-bit words, the
  second one computed as \<open>(record.offset >> 32) & 0xFFFFFFFF\<close>.
\<close>

definition PPF_write_record :: "PPFPatch \<Rightarrow> PPFRecord \<Rightarrow> write_step list" where
  "PPF_write_record p r =
     (if ppf_version p = 3
      then [ok (writeU32 (js_and (ppf_offset r) 4294967295)),
            ok (writeU32 (js_and (js_sar (ppf_offset r) 32) 4294967295))]
      else [ok (writeU32 (ppf_offset r))])
     @ [ok (writeU8 (int (length (ppf_data r)))),
        writeBytes (u8_of_ints (ppf_data r))]
     @ (case ppf_undoData r of
          Some u \<Rightarrow> if ppf_undo p then [writeBytes (u8_of_ints u)] else []
        | None \<Rightarrow> [])"

definition PPF_export :: "PPFPatch \<Rightarrow> string option \<Rightarrow> error + BinFile" where
  "PPF_export p fileName' =
     (case BinFile_of_size (PPF_patchFileSize p) of
        Inl e \<Rightarrow> Inl e
      | Inr tempFile \<Rightarrow>
          run_writes
           ([ok (setName ((case fileName' of None \<Rightarrow> ''patch''
                           | Some n \<Rightarrow> if n = [] then ''patch'' else n) @ ''.ppf'')),
             writeString_ascii PPF_MAGIC,
             writeString_ascii (padStart 2 (CHR ''0'') (toString10 (ppf_version p * 10))),
             ok (writeU8 (ppf_version p + 1)),
             writeString_ascii (padEnd 50 (CHR '' '') (ppf_description p))]
            @ (if ppf_version p = 3
               then [ok (writeU8 (ppf_imageType p)),
                     ok (writeU8 (if blockCheck_truthy (ppf_blockCheck p) then 1 else 0)),
                     ok (writeU8 (if ppf_undo p then 1 else 0)),
                     ok (writeU8 0)]
               else if ppf_version p = 2
               then [ok (writeU32 (case ppf_inputFileSize p of None \<Rightarrow> 0 | Some n \<Rightarrow> n))]
               else [])
            @ (case ppf_blockCheck p of
                 BlockCheckBytes bs \<Rightarrow> [writeBytes (u8_of_ints bs)]
               | BlockCheckFlag _ \<Rightarrow> [])
            @ [ok (\<lambda>f. f\<lparr>littleEndian := True\<rparr>)]
            @ concat (map (PPF_write_record p) (ppf_records p))
            @ (if fileIdDiz_truthy (ppf_fileIdDiz p)
               then [writeString_ascii PPF_BEGIN_FILE_ID_DIZ_MAGIC,
                     ok (writeU8 0), ok (writeU8 0),
                     ok (writeU32 (int (length (the (ppf_fileIdDiz p))) + 16)),
                     writeString_ascii (the (ppf_fileIdDiz p)),
                     writeString_ascii ''@END_FILE_ID.DIZ'']
               else []))
           tempFile)"

subsection \<open>\<open>PPF.fromFile\<close>\<close>

text \<open>
  The parser is modelled for buffers whose cursor and size lie inside the array, where
  \<open>readU8\<close> returns a number (lemma \<open>readU8_number\<close>); \<open>num\<close> reads it.
\<close>

text \<open>
  \<open>u64_1 + (u64_2 * 0x100000000)\<close>: the product of a 32-bit number and \<open>2^32\<close> is exact,
  the sum is rounded to a double.
\<close>

definition PPF_read_offset :: "int \<Rightarrow> BinFile \<Rightarrow> int \<times> BinFile" where
  "PPF_read_offset version f =
     (if version = 3
      then (case readU32 f of (u64_1, f1) \<Rightarrow>
              (case readU32 f1 of (u64_2, f2) \<Rightarrow>
                 (toDouble (u64_1 + u64_2 * 4294967296), f2)))
      else readU32 f)"

definition PPF_read_record :: "int \<Rightarrow> bool \<Rightarrow> BinFile \<Rightarrow> PPFRecord \<times> BinFile" where
  "PPF_read_record version undo f =
     (case PPF_read_offset version f of (off, f1) \<Rightarrow>
        (case readU8 f1 of (len, f2) \<Rightarrow>
           (case readBytes (num len) f2 of (d, f3) \<Rightarrow>
              (if undo
               then (case readBytes (num len) f3 of (u, f4) \<Rightarrow>
                       (\<lparr>ppf_offset = off, ppf_data = map uint d,
                         ppf_undoData = Some (map uint u)\<rparr>, f4))
               else (\<lparr>ppf_offset = off, ppf_data = map uint d, ppf_undoData = None\<rparr>, f3)))))"

lemma readU8_number: "binfile_inv f \<Longrightarrow> \<exists>n. fst (readU8 f) = Num n"
  by (auto simp: binfile_inv_def readU8_def u8_get_def)

lemma readU8_cursor:
  "fileSize (snd (readU8 f)) = fileSize f \<and>
   offset (snd (readU8 f)) = (if offset f < fileSize f then offset f + 1 else offset f)"
  by (simp add: readU8_def)

lemma readU32_cursor:
  "fileSize (snd (readU32 f)) = fileSize f \<and>
   offset (snd (readU32 f))
     = (if offset f < fileSize f then min (offset f + 4) (fileSize f) else offset f)"
proof -
  let ?f1 = "snd (readU8 f)" and ?f2 = "snd (readU8 (snd (readU8 f)))"
    and ?f3 = "snd (readU8 (snd (readU8 (snd (readU8 f)))))"
  have s: "snd (readU32 f) = snd (readU8 ?f3)"
    by (simp add: readU32_def split_beta)
  note c = readU8_cursor [of f] readU8_cursor [of ?f1] readU8_cursor [of ?f2]
    readU8_cursor [of ?f3]
  show ?thesis unfolding s using c by (auto simp: min_def)
qed

lemma readBytes_cursor:
  "fileSize (snd (readBytes n f)) = fileSize f \<and>
   offset (snd (readBytes n f)) = min (offset f + n) (fileSize f)"
  by (simp add: readBytes_def Let_def)

lemma PPF_read_offset_cursor:
  "fileSize (snd (PPF_read_offset version f)) = fileSize f \<and>
   min (offset f + 4) (fileSize f) \<le> offset (snd (PPF_read_offset version f))"
proof (cases "version = 3")
  case True
  then have s: "snd (PPF_read_offset version f) = snd (readU32 (snd (readU32 f)))"
    by (simp add: PPF_read_offset_def split_beta)
  show ?thesis unfolding s
    using readU32_cursor [of f] readU32_cursor [of "snd (readU32 f)"]
    by (auto simp: min_def split: if_splits)
next
  case False
  then have s: "snd (PPF_read_offset version f) = snd (readU32 f)"
    by (simp add: PPF_read_offset_def)
  show ?thesis unfolding s using readU32_cursor [of f]
    by (auto simp: min_def split: if_splits)
qed

lemma num_readU8_nonneg: "0 \<le> num (fst (readU8 f))"
  by (simp add: readU8_def u8_get_def)

lemma PPF_read_record_cursor:
  "fileSize (snd (PPF_read_record version undo f)) = fileSize f \<and>
   min (offset f + 4) (fileSize f) \<le> offset (snd (PPF_read_record version undo f))"
proof -
  let ?f1 = "snd (PPF_read_offset version f)"
  let ?f2 = "snd (readU8 ?f1)"
  let ?n = "num (fst (readU8 ?f1))"
  let ?f3 = "snd (readBytes ?n ?f2)"
  let ?f4 = "snd (readBytes ?n ?f3)"
  have s: "snd (PPF_read_record version undo f) = (if undo then ?f4 else ?f3)"
    by (simp add: PPF_read_record_def split_beta)
  have n: "0 \<le> ?n" by (rule num_readU8_nonneg)
  note c = PPF_read_offset_cursor [of version f] readU8_cursor [of ?f1]
    readBytes_cursor [of ?n ?f2] readBytes_cursor [of ?n ?f3]
  show ?thesis unfolding s using c n by (auto simp: min_def split: if_splits)
qed

text \<open>
  The loop over the records reads four characters, steps back four, and reads a record.
  A record takes at least four bytes or reaches the end of the data, so the loop ends.
\<close>

function PPF_read_records :: "PPFPatch \<Rightarrow> BinFile \<Rightarrow> PPFPatch \<times> BinFile" where
  "PPF_read_records patch f =
     (if isEOF f then (patch, f)
      else (case readString_ascii 4 f of (s, f1) \<Rightarrow>
              if s = take 4 (drop 1 PPF_BEGIN_FILE_ID_DIZ_MAGIC)
              then (case readString_ascii 3072 (skip 14 f1) of (diz, f3) \<Rightarrow>
                      (patch\<lparr>ppf_fileIdDiz :=
                          Some (take (nat (indexOf diz ''@END_FILE_ID.DIZ'')) diz)\<rparr>, f3))
              else (case PPF_read_record (ppf_version patch) (ppf_undo patch) (skip (- 4) f1) of
                      (r, f2) \<Rightarrow>
                        PPF_read_records (patch\<lparr>ppf_records := ppf_records patch @ [r]\<rparr>) f2)))"
  by pat_completeness auto
termination
proof (relation "measure (\<lambda>(patch, f). nat (fileSize f - offset f))", goal_cases)
  case 1
  show ?case by simp
next
  case (2 patch f s f1 r f2)
  let ?g = "skip (- 4) f1"
  from 2(1) have lt: "offset f < fileSize f" by (simp add: isEOF_def)
  from 2(2) have f1: "f1 = snd (readBytes 4 f)"
    by (simp add: readString_ascii_def split_beta)
  have g: "fileSize ?g = fileSize f" "offset f < min (offset ?g + 4) (fileSize ?g)"
    using lt readBytes_cursor [of 4 f] unfolding f1
    by (auto simp: skip_def seek_def min_def max_def)
  from 2(4) have f2: "f2 = snd (PPF_read_record (ppf_version patch) (ppf_undo patch) ?g)"
    by (metis snd_conv)
  from PPF_read_record_cursor [of "ppf_version patch" "ppf_undo patch" ?g] g
  have "fileSize f2 = fileSize f" "offset f < offset f2"
    unfolding f2 by auto
  with lt show ?case by simp
qed

declare PPF_read_records.simps [simp del]

definition truthy :: "jsval \<Rightarrow> bool" where
  "truthy v = (case v of Num n \<Rightarrow> n \<noteq> 0 | Undefined \<Rightarrow> False)"

text \<open>
  The header. \<open>version1\<close> is \<open>parseInt(...) / 10\<close>: it differs from the integer
  \<open>version2\<close> unless the parsed number is ten times \<open>version2\<close>, and it exceeds 3
  when the parsed number exceeds 30; either way the parser throws.
\<close>

definition PPF_fromFile :: "BinFile \<Rightarrow> error + PPFPatch \<times> BinFile" where
  "PPF_fromFile patchFile =
     (case readString_ascii 2 (seek 3 patchFile) of (vs, f1) \<Rightarrow>
      (case readU8 f1 of (b, f2) \<Rightarrow>
        (case parseInt vs of
           None \<Rightarrow> Inl (InvalidPatchFileError ''Invalid PPF version'')
         | Some k \<Rightarrow>
             if k \<noteq> 10 * (num b + 1)
             then Inl (InvalidPatchFileError ''Invalid PPF version'')
             else if k > 30
             then Inl (InvalidPatchFileError ''Invalid PPF version'')
             else
               (case readString_ascii 50 f2 of (d, f3) \<Rightarrow>
                 (let version = k div 10;
                      patch0 = PPFPatch_new\<lparr>ppf_version := version,
                                 ppf_description := stripTrailingSpaces d\<rparr>;
                      (patch1, f4) =
                        (if version = 3
                         then (case readU8 f3 of (it, g1) \<Rightarrow>
                                (case readU8 g1 of (bc, g2) \<Rightarrow>
                                  (case readU8 g2 of (ud, g3) \<Rightarrow>
                                    (patch0\<lparr>ppf_imageType := num it,
                                       ppf_blockCheck :=
                                         (if truthy bc then BlockCheckFlag True
                                          else ppf_blockCheck patch0),
                                       ppf_undo := (if truthy ud then True else ppf_undo patch0)\<rparr>,
                                     skip 1 g3))))
                         else if version = 2
                         then (case readU32 f3 of (n, g1) \<Rightarrow>
                                (patch0\<lparr>ppf_blockCheck := BlockCheckFlag True,
                                   ppf_inputFileSize := Some n\<rparr>, g1))
                         else (patch0, f3));
                      (patch2, f5) =
                        (if blockCheck_truthy (ppf_blockCheck patch1)
                         then (case readBytes 1024 f4 of (bs, g) \<Rightarrow>
                                (patch1\<lparr>ppf_blockCheck := BlockCheckBytes (map uint bs)\<rparr>, g))
                         else (patch1, f4))
                  in Inr (PPF_read_records patch2 (f5\<lparr>littleEndian := True\<rparr>)))))))"

section \<open>The dispatcher (rom-patcher.ts)\<close>

text \<open>
  A format module is looked at through its \<open>magic\<close> and its \<open>parse\<close>. A codec's
  \<open>parse\<close> gets the patch file and either throws (\<open>Inl\<close> the error's message), or
  returns a patch or \<open>null\<close>, having moved the file's cursor.
\<close>

type_synonym 'p codec_parse = "BinFile \<Rightarrow> string + ('p option \<times> BinFile)"

definition IPS_MAGIC :: string where
  "IPS_MAGIC = ''PATCH''"

definition UPS_MAGIC :: string where
  "UPS_MAGIC = ''UPS1''"

definition APS_GBA_MAGIC :: string where
  "APS_GBA_MAGIC = ''APS1''"

definition PMSR_MAGIC :: string where
  "PMSR_MAGIC = ''PMSR''"

definition VCDIFF_MAGIC :: string where
  "VCDIFF_MAGIC = [CHR 0xD6, CHR 0xC3, CHR 0xC4]"

text \<open>
  The registry, in the order of its \<open>Map\<close>: IPS, UPS, APS-GBA, PMSR and VCDIFF. The
  entries for BPS, APS (N64), PPF and RUP are commented out in the source.
\<close>

definition formatModules ::
  "'p codec_parse \<Rightarrow> 'p codec_parse \<Rightarrow> 'p codec_parse \<Rightarrow> 'p codec_parse \<Rightarrow> 'p codec_parse \<Rightarrow>
     (string \<times> 'p codec_parse) list" where
  "formatModules ips ups apsgba pmsr vcdiff =
     [(IPS_MAGIC, ips), (UPS_MAGIC, ups), (APS_GBA_MAGIC, apsgba), (PMSR_MAGIC, pmsr),
      (VCDIFF_MAGIC, vcdiff)]"

text \<open>
  The loop over the modules: the first module whose magic starts the header and whose
  \<open>parse\<close> returns a patch decides; a \<open>parse\<close> that throws is reported as an invalid
  patch file; a \<open>parse\<close> that returns \<open>null\<close> lets the loop go on.
\<close>

fun try_modules :: "(string \<times> 'p codec_parse) list \<Rightarrow> string \<Rightarrow> BinFile \<Rightarrow> error + 'p" where
  "try_modules [] header f = Inl (UnsupportedFormatError ''Unknown patch format'')"
| "try_modules ((magic, parse) # ms) header f =
     (if prefix magic header
      then (case parse f of
              Inl msg \<Rightarrow>
                Inl (InvalidPatchFileError (''Failed to parse '' @ magic @ '' patch: '' @ msg))
            | Inr (Some patch, f1) \<Rightarrow> Inr patch
            | Inr (None, f1) \<Rightarrow> try_modules ms header f1)
      else try_modules ms header f)"

definition parsePatchFile :: "(string \<times> 'p codec_parse) list \<Rightarrow> BinFile \<Rightarrow> error + 'p" where
  "parsePatchFile modules patchFile =
     (if fileSize (seek 0 (patchFile\<lparr>littleEndian := False\<rparr>)) < 5
      then Inl (InvalidPatchFileError ''Patch file is too small'')
      else (case readString_ascii 6 (seek 0 (patchFile\<lparr>littleEndian := False\<rparr>)) of
              (header, f1) \<Rightarrow> try_modules modules header (seek 0 f1)))"

text \<open>
  The header the dispatcher reads, the file it hands to a codec, and the nine magics of
  the specification.
\<close>

definition header_of :: "BinFile \<Rightarrow> string" where
  "header_of patchFile = fst (readString_ascii 6 (seek 0 (patchFile\<lparr>littleEndian := False\<rparr>)))"

definition file_for_codec :: "BinFile \<Rightarrow> BinFile" where
  "file_for_codec patchFile =
     seek 0 (snd (readString_ascii 6 (seek 0 (patchFile\<lparr>littleEndian := False\<rparr>))))"

definition spec_magics :: "string list" where
  "spec_magics =
     [''PATCH'', ''UPS1'', ''BPS1'', ''APS10'', ''APS1'', ''PPF'', ''NINJA2'', ''PMSR'',
      [CHR 0xD6, CHR 0xC3, CHR 0xC4]]"

text \<open>What the dispatcher makes of a codec's outcome when no later module matches.\<close>

definition codec_outcome :: "string \<Rightarrow> string + ('p option \<times> BinFile) \<Rightarrow> error + 'p" where
  "codec_outcome magic r =
     (case r of
        Inl msg \<Rightarrow> Inl (InvalidPatchFileError (''Failed to parse '' @ magic @ '' patch: '' @ msg))
      | Inr (Some patch, f1) \<Rightarrow> Inr patch
      | Inr (None, f1) \<Rightarrow> Inl (UnsupportedFormatError ''Unknown patch format''))"

section \<open>Buffers as objects in a store\<close>

text \<open>
  The definitions above pass a \<open>BinFile\<close> by value. Whether two buffers share storage
  is a question about references, so here the same operations are written on a store:
  the \<open>Uint8Array\<close>s and the \<open>BinFile\<close> objects live in two tables, an address is an
  index into its table, and allocation appends. An object holds the addresses of its
  \<open>data\<close> and \<open>_u8array\<close>; a store through one address is seen through every other
  reference to it.
\<close>

record BinFileObj =
  obj_fileName :: string
  obj_fileSize :: int
  obj_littleEndian :: bool
  obj_offset :: int
  obj_data :: nat
  obj_u8array :: nat
  obj_offsetsStack :: "int list"

record store =
  arrays :: "Uint8Array list"
  objects :: "BinFileObj list"

text \<open>The buffer an object denotes: its fields, and the bytes its \<open>data\<close> refers to.\<close>

definition s_view :: "store \<Rightarrow> nat \<Rightarrow> BinFile" where
  "s_view st a =
     \<lparr>fileName = obj_fileName (objects st ! a), fileSize = obj_fileSize (objects st ! a),
      littleEndian = obj_littleEndian (objects st ! a), offset = obj_offset (objects st ! a),
      data = arrays st ! obj_data (objects st ! a),
      offsetsStack = obj_offsetsStack (objects st ! a)\<rparr>"

text \<open>A new array with the given contents; its address is the next free index.\<close>

definition new_Uint8Array :: "Uint8Array \<Rightarrow> store \<Rightarrow> nat \<times> store" where
  "new_Uint8Array bs st = (length (arrays st), st\<lparr>arrays := arrays st @ [bs]\<rparr>)"

text \<open>
  \<open>new BinFile(source)\<close> for a \<open>Uint8Array\<close>: \<open>this.data = new Uint8Array(source)\<close> is a
  copy of the source array, \<open>_u8array\<close> refers to the same copy.
\<close>

definition s_new_BinFile :: "nat \<Rightarrow> store \<Rightarrow> nat \<times> store" where
  "s_new_BinFile src st =
     (case new_Uint8Array (arrays st ! src) st of
        (d, st1) \<Rightarrow>
          (length (objects st1),
           st1\<lparr>objects := objects st1 @
              [\<lparr>obj_fileName = [], obj_fileSize = int (length (arrays st ! src)),
                obj_littleEndian = False, obj_offset = 0, obj_data = d, obj_u8array = d,
                obj_offsetsStack = []\<rparr>]\<rparr>))"

text \<open>
  \<open>clone\<close>: \<open>this.data.slice()\<close> is a new array, the constructor copies it once more,
  and four fields of the new object are set.
\<close>

definition s_clone :: "nat \<Rightarrow> store \<Rightarrow> nat \<times> store" where
  "s_clone this st =
     (case new_Uint8Array
             (js_slice (arrays st ! obj_data (objects st ! this)) 0
                (int (length (arrays st ! obj_data (objects st ! this))))) st of
        (tmp, st1) \<Rightarrow>
          (case s_new_BinFile tmp st1 of
             (cloned, st2) \<Rightarrow>
               (cloned,
                st2\<lparr>objects := (objects st2)[cloned :=
                   (objects st2 ! cloned)
                     \<lparr>obj_fileName := obj_fileName (objects st ! this),
                      obj_fileSize := obj_fileSize (objects st ! this),
                      obj_littleEndian := obj_littleEndian (objects st ! this),
                      obj_offset := 0\<rparr>]\<rparr>)))"

text \<open>
  \<open>expand\<close>: a new zero-filled array of the new size receives the old bytes, and the
  object's \<open>data\<close> and \<open>_u8array\<close> are redirected to it. The old array stays as it is.
\<close>

definition s_expand :: "int \<Rightarrow> nat \<Rightarrow> store \<Rightarrow> store" where
  "s_expand newSize this st =
     (if newSize \<le> int (length (arrays st ! obj_data (objects st ! this))) then st
      else (case new_Uint8Array
                   (arrays st ! obj_data (objects st ! this)
                    @ replicate (nat newSize - length (arrays st ! obj_data (objects st ! this))) 0)
                   st of
              (newData, st1) \<Rightarrow>
                st1\<lparr>objects := (objects st1)[this :=
                   (objects st1 ! this)\<lparr>obj_data := newData, obj_u8array := newData\<rparr>]\<rparr>))"

text \<open>\<open>writeU8\<close>: the byte is stored in place, in the array \<open>data\<close> refers to.\<close>

definition s_store_byte :: "int \<Rightarrow> nat \<Rightarrow> store \<Rightarrow> store" where
  "s_store_byte v this st =
     st\<lparr>arrays := (arrays st)[obj_data (objects st ! this) :=
        u8_put (arrays st ! obj_data (objects st ! this)) (obj_offset (objects st ! this))
          (js_and v 255)]\<rparr>"

definition s_advance :: "int \<Rightarrow> nat \<Rightarrow> store \<Rightarrow> store" where
  "s_advance n this st =
     st\<lparr>objects := (objects st)[this :=
        (objects st ! this)
          \<lparr>obj_offset := obj_offset (objects st ! this) + n,
           obj_fileSize := (if obj_offset (objects st ! this) + n > obj_fileSize (objects st ! this)
                            then obj_offset (objects st ! this) + n
                            else obj_fileSize (objects st ! this))\<rparr>]\<rparr>"

definition s_writeU8 :: "int \<Rightarrow> nat \<Rightarrow> store \<Rightarrow> store" where
  "s_writeU8 v this st =
     s_advance 1 this
       (s_store_byte v this
         (if obj_offset (objects st ! this)
               \<ge> int (length (arrays st ! obj_data (objects st ! this)))
          then s_expand (obj_offset (objects st ! this) + 1) this st else st))"

text \<open>\<open>writeBytes\<close>: \<open>this.data.set(data, this.offset)\<close> overwrites in place.\<close>

definition s_set_bytes :: "Uint8Array \<Rightarrow> nat \<Rightarrow> store \<Rightarrow> store" where
  "s_set_bytes bs this st =
     st\<lparr>arrays := (arrays st)[obj_data (objects st ! this) :=
        take (nat (obj_offset (objects st ! this))) (arrays st ! obj_data (objects st ! this))
        @ bs
        @ drop (nat (obj_offset (objects st ! this)) + length bs)
            (arrays st ! obj_data (objects st ! this))]\<rparr>"

definition s_writeBytes :: "Uint8Array \<Rightarrow> nat \<Rightarrow> store \<Rightarrow> error + store" where
  "s_writeBytes bs this st =
     (let st1 = (if obj_offset (objects st ! this) + int (length bs)
                      > int (length (arrays st ! obj_data (objects st ! this)))
                 then s_expand (obj_offset (objects st ! this) + int (length bs)) this st
                 else st)
      in if obj_offset (objects st1 ! this) < 0 then Inl RangeError
         else Inr (s_advance (int (length bs)) this (s_set_bytes bs this st1)))"

text \<open>
  The writes and \<open>expand\<close> as commands on one buffer. \<open>s_run\<close> performs a list of them
  and gives the store at the end, or at the command that threw.
\<close>

datatype buffer_op =
    OpWriteU8 int
  | OpWriteU16 int
  | OpWriteU24 int
  | OpWriteU32 int
  | OpWriteBytes Uint8Array
  | OpExpand int

definition s_writeU16 :: "int \<Rightarrow> nat \<Rightarrow> store \<Rightarrow> store" where
  "s_writeU16 v this st =
     (if obj_littleEndian (objects st ! this)
      then s_writeU8 (js_and (js_sar v 8) 255) this (s_writeU8 (js_and v 255) this st)
      else s_writeU8 (js_and v 255) this (s_writeU8 (js_and (js_sar v 8) 255) this st))"

definition s_writeU24 :: "int \<Rightarrow> nat \<Rightarrow> store \<Rightarrow> store" where
  "s_writeU24 v this st =
     (if obj_littleEndian (objects st ! this)
      then s_writeU8 (js_and (js_sar v 16) 255) this
             (s_writeU8 (js_and (js_sar v 8) 255) this (s_writeU8 (js_and v 255) this st))
      else s_writeU8 (js_and v 255) this
             (s_writeU8 (js_and (js_sar v 8) 255) this
               (s_writeU8 (js_and (js_sar v 16) 255) this st)))"

definition s_writeU32 :: "int \<Rightarrow> nat \<Rightarrow> store \<Rightarrow> store" where
  "s_writeU32 v this st =
     (if obj_littleEndian (objects st ! this)
      then s_writeU8 (js_and (js_sar v 24) 255) this
             (s_writeU8 (js_and (js_sar v 16) 255) this
               (s_writeU8 (js_and (js_sar v 8) 255) this (s_writeU8 (js_and v 255) this st)))
      else s_writeU8 (js_and v 255) this
             (s_writeU8 (js_and (js_sar v 8) 255) this
               (s_writeU8 (js_and (js_sar v 16) 255) this
                 (s_writeU8 (js_and (js_sar v 24) 255) this st))))"

fun s_op :: "buffer_op \<Rightarrow> nat \<Rightarrow> store \<Rightarrow> error + store" where
  "s_op (OpWriteU8 v) this st = Inr (s_writeU8 v this st)"
| "s_op (OpWriteU16 v) this st = Inr (s_writeU16 v this st)"
| "s_op (OpWriteU24 v) this st = Inr (s_writeU24 v this st)"
| "s_op (OpWriteU32 v) this st = Inr (s_writeU32 v this st)"
| "s_op (OpWriteBytes bs) this st = s_writeBytes bs this st"
| "s_op (OpExpand n) this st = Inr (s_expand n this st)"

fun s_run :: "buffer_op list \<Rightarrow> nat \<Rightarrow> store \<Rightarrow> store" where
  "s_run [] this st = st"
| "s_run (c # cs) this st =
     (case s_op c this st of Inl e \<Rightarrow> st | Inr st1 \<Rightarrow> s_run cs this st1)"

text \<open>
  Two objects of a store are separate when both are allocated with their arrays and
  their \<open>data\<close> are different arrays.
\<close>

definition separate :: "store \<Rightarrow> nat \<Rightarrow> nat \<Rightarrow> bool" where
  "separate st b c \<longleftrightarrow>
     b < length (objects st) \<and> c < length (objects st) \<and> b \<noteq> c \<and>
     obj_data (objects st ! b) < length (arrays st) \<and>
     obj_data (objects st ! c) < length (arrays st) \<and>
     obj_data (objects st ! b) \<noteq> obj_data (objects st ! c)"

section \<open>APS for N64 (aps.ts)\<close>

definition APS_RECORD_RLE :: int where
  "APS_RECORD_RLE = 0"

definition APS_RECORD_SIMPLE :: int where
  "APS_RECORD_SIMPLE = 1"

definition APS_N64_MODE :: int where
  "APS_N64_MODE = 1"

record APSRecord =
  aps_offset :: int
  aps_type :: int
  aps_data :: "jsval list option"
  aps_length :: "int option"
  aps_byte :: jsval

record APSHeader =
  originalN64Format :: "int option"
  cartId :: "string option"
  header_crc :: "int list option"
  header_pad :: "int list option"
  header_sizeOutput :: "int option"

record APSPatch =
  apsRecords :: "APSRecord list"
  headerType :: int
  encodingMethod :: int
  aps_description :: string
  aps_header :: APSHeader

definition APSPatch_new :: APSPatch where
  "APSPatch_new =
     \<lparr>apsRecords = [], headerType = 0, encodingMethod = 0,
      aps_description = ''no description'',
      aps_header = \<lparr>originalN64Format = None, cartId = None, header_crc = None,
                      header_pad = None, header_sizeOutput = None\<rparr>\<rparr>"

definition APS_addRecord :: "int \<Rightarrow> jsval list \<Rightarrow> APSPatch \<Rightarrow> APSPatch" where
  "APS_addRecord off d p =
     p\<lparr>apsRecords := apsRecords p @
        [\<lparr>aps_offset = off, aps_type = APS_RECORD_SIMPLE, aps_data = Some d,
          aps_length = None, aps_byte = Undefined\<rparr>]\<rparr>"

text \<open>
  The class defines \<open>addRLERecord\<close> twice, and the second definition is the one in
  effect. It pushes the new record onto \<open>this.records\<close>, and \<open>records\<close> is a getter
  that returns a fresh array (\<open>this.apsRecords.map(...)\<close>): the push changes that
  temporary array and \<open>apsRecords\<close> stays as it is.
\<close>

definition APS_addRLERecord :: "int \<Rightarrow> jsval \<Rightarrow> int \<Rightarrow> APSPatch \<Rightarrow> APSPatch" where
  "APS_addRLERecord off byte len p = p"

subsection \<open>\<open>APSPatch.apply\<close>\<close>

definition APS_apply_record :: "APSRecord \<Rightarrow> BinFile \<Rightarrow> error + BinFile" where
  "APS_apply_record r f =
     (if aps_type r = APS_RECORD_RLE
      then Inr ((writeU8 (num (aps_byte r))
                  ^^ nat (case aps_length r of Some n \<Rightarrow> n | None \<Rightarrow> 0))
                 (seek (aps_offset r) f))
      else writeBytes (u8_of_numbers (case aps_data r of Some d \<Rightarrow> d | None \<Rightarrow> []))
             (seek (aps_offset r) f))"

fun APS_apply_records :: "APSRecord list \<Rightarrow> BinFile \<Rightarrow> error + BinFile" where
  "APS_apply_records [] f = Inr f"
| "APS_apply_records (r # rs) f =
     (case APS_apply_record r f of Inl e \<Rightarrow> Inl e | Inr f1 \<Rightarrow> APS_apply_records rs f1)"

definition APS_apply :: "APSPatch \<Rightarrow> BinFile \<Rightarrow> error + BinFile" where
  "APS_apply p romFile =
     (case BinFile_of_size
             (case header_sizeOutput (aps_header p) of
                Some n \<Rightarrow> if n \<noteq> 0 then n else fileSize romFile
              | None \<Rightarrow> fileSize romFile) of
        Inl e \<Rightarrow> Inl e
      | Inr t0 \<Rightarrow>
          (case copyTo romFile t0 0 None of
             Inl e \<Rightarrow> Inl e
           | Inr t1 \<Rightarrow>
               (case APS_apply_records (apsRecords p) t1 of
                  Inl e \<Rightarrow> Inl e
                | Inr tempFile \<Rightarrow> Inr (setName (patchedName romFile) tempFile))))"

subsection \<open>\<open>APS.create\<close>\<close>

text \<open>
  The inner loop. \<open>b1\<close> and \<open>b2\<close> are the constants of the outer turn: the bytes read
  inside the loop go to \<open>nb1\<close> and \<open>nb2\<close>, and every turn pushes \<open>b2\<close>.
\<close>

function APS_collect ::
  "jsval \<Rightarrow> jsval \<Rightarrow> bool \<Rightarrow> jsval list \<Rightarrow> BinFile \<Rightarrow> BinFile \<Rightarrow>
     bool \<times> jsval list \<times> BinFile \<times> BinFile" where
  "APS_collect b1 b2 RLERecord differentBytes originalFile modifiedFile =
     (if b1 \<noteq> b2 \<and> length differentBytes < 255
      then (if isEOF modifiedFile \<or> length (differentBytes @ [b2]) = 255
            then (if b2 \<noteq> hd (differentBytes @ [b2]) then False else RLERecord,
                  differentBytes @ [b2], originalFile, modifiedFile)
            else (case (if isEOF originalFile then (Num 0, originalFile)
                        else readU8 originalFile) of
                    (nb1, o1) \<Rightarrow>
                      (case readU8 modifiedFile of
                         (nb2, m1) \<Rightarrow>
                           if nb1 = nb2
                           then (if b2 \<noteq> hd (differentBytes @ [b2]) then False else RLERecord,
                                 differentBytes @ [b2], o1, m1)
                           else APS_collect b1 b2
                                  (if b2 \<noteq> hd (differentBytes @ [b2]) then False else RLERecord)
                                  (differentBytes @ [b2]) o1 m1)))
      else (RLERecord, differentBytes, originalFile, modifiedFile))"
  by pat_completeness auto
termination
  by (relation "measure (\<lambda>(b1, b2, RLERecord, differentBytes, originalFile, modifiedFile).
        255 - length differentBytes)") auto

declare APS_collect.simps [simp del]

lemma APS_collect_cursor:
  "fileSize (snd (snd (snd (APS_collect b1 b2 r ds originalFile modifiedFile))))
     = fileSize modifiedFile \<and>
   offset modifiedFile
     \<le> offset (snd (snd (snd (APS_collect b1 b2 r ds originalFile modifiedFile))))"
proof (induction b1 b2 r ds originalFile modifiedFile rule: APS_collect.induct)
  case (1 b1 b2 RLERecord differentBytes originalFile modifiedFile)
  obtain nb1 o1 where e1:
    "(nb1, o1) = (if isEOF originalFile then (Num 0, originalFile) else readU8 originalFile)"
    by (metis prod.collapse)
  obtain nb2 m1 where e2: "(nb2, m1) = readU8 modifiedFile"
    by (metis prod.collapse)
  from e2 have m1: "m1 = snd (readU8 modifiedFile)" by (metis snd_conv)
  show ?case
  proof (cases "b1 \<noteq> b2 \<and> length differentBytes < 255 \<and>
      \<not> (isEOF modifiedFile \<or> length (differentBytes @ [b2]) = 255) \<and> nb1 \<noteq> nb2")
    case True
    with "1.IH" [OF _ _ e1 e2] have ih:
      "fileSize (snd (snd (snd (APS_collect b1 b2
          (if b2 \<noteq> hd (differentBytes @ [b2]) then False else RLERecord)
          (differentBytes @ [b2]) o1 m1)))) = fileSize m1 \<and>
       offset m1 \<le> offset (snd (snd (snd (APS_collect b1 b2
          (if b2 \<noteq> hd (differentBytes @ [b2]) then False else RLERecord)
          (differentBytes @ [b2]) o1 m1))))"
      by simp
    from True ih readU8_cursor [of modifiedFile] show ?thesis
      unfolding m1
      by (subst (1 2) APS_collect.simps)
        (auto simp: e1 [symmetric] e2 [symmetric] m1 [symmetric] split: if_splits)
  next
    case False
    with readU8_cursor [of modifiedFile] show ?thesis
      unfolding m1
      by (subst (1 2) APS_collect.simps)
        (auto simp: e1 [symmetric] e2 [symmetric] m1 [symmetric])
  qed
qed

text \<open>The outer loop, on the patch and the two files with their cursors.\<close>

function APS_create_loop ::
  "APSPatch \<Rightarrow> BinFile \<Rightarrow> BinFile \<Rightarrow> APSPatch \<times> BinFile \<times> BinFile" where
  "APS_create_loop patch originalFile modifiedFile =
     (if isEOF modifiedFile then (patch, originalFile, modifiedFile)
      else (case (if isEOF originalFile then (Num 0, originalFile)
                  else readU8 originalFile) of
              (b1, o1) \<Rightarrow>
                (case readU8 modifiedFile of
                   (b2, m1) \<Rightarrow>
                     if b1 \<noteq> b2
                     then (case APS_collect b1 b2 True [] o1 m1 of
                             (RLERecord, differentBytes, o2, m2) \<Rightarrow>
                               APS_create_loop
                                 (if RLERecord \<and> length differentBytes > 2
                                  then APS_addRLERecord (offset m1 - 1) (hd differentBytes)
                                         (int (length differentBytes)) patch
                                  else APS_addRecord (offset m1 - 1) differentBytes patch)
                                 o2 m2)
                     else APS_create_loop patch o1 m1)))"
  by pat_completeness auto
termination
proof (relation "measure (\<lambda>(patch, originalFile, modifiedFile).
    nat (fileSize modifiedFile - offset modifiedFile))", goal_cases)
  case 1
  show ?case by simp
next
  case (2 patch originalFile modifiedFile b1 o1 b2 m1 r yb ds yc o2 m2)
  from 2(1) have lt: "offset modifiedFile < fileSize modifiedFile" by (simp add: isEOF_def)
  from 2(3) have m1: "m1 = snd (readU8 modifiedFile)" by (metis snd_conv)
  from 2(5,6,7) have m2: "m2 = snd (snd (snd (APS_collect b1 b2 True [] o1 m1)))"
    by (metis snd_conv)
  from APS_collect_cursor [of b1 b2 True "[]" o1 m1] readU8_cursor [of modifiedFile] lt
  show ?case unfolding m2 m1 by simp
next
  case (3 patch originalFile modifiedFile b1 o1 b2 m1)
  from 3(1) have lt: "offset modifiedFile < fileSize modifiedFile" by (simp add: isEOF_def)
  from 3(3) have m1: "m1 = snd (readU8 modifiedFile)" by (metis snd_conv)
  from readU8_cursor [of modifiedFile] lt show ?case unfolding m1 by simp
qed

declare APS_create_loop.simps [simp del]

text \<open>\<open>/\.v64$/i.test(fileName)\<close>\<close>

definition ends_with_v64 :: "string \<Rightarrow> bool" where
  "ends_with_v64 name \<longleftrightarrow> suffix ''.v64'' (toLowerCase name)"

text \<open>
  \<open>create\<close> returns the patch; the cursors of both files have moved, so the files are
  returned with it.
\<close>

definition APS_create :: "BinFile \<Rightarrow> BinFile \<Rightarrow> APSPatch \<times> BinFile \<times> BinFile" where
  "APS_create originalFile modifiedFile =
     (case readU32 (seek 0 originalFile) of
        (magic, o1) \<Rightarrow>
          (case (if magic = 2151092800
                 then (case readString_ascii 3 (seek 60 o1) of
                         (cart, o2) \<Rightarrow>
                           (case readBytes 8 (seek 16 o2) of
                              (crc, o3) \<Rightarrow>
                                (APSPatch_new
                                   \<lparr>headerType := APS_N64_MODE,
                                    aps_header := (aps_header APSPatch_new)
                                      \<lparr>originalN64Format :=
                                         Some (if ends_with_v64 (fileName originalFile)
                                               then 0 else 1),
                                       cartId := Some cart,
                                       header_crc := Some (map uint crc),
                                       header_pad := Some [0, 0, 0, 0, 0]\<rparr>\<rparr>, o3)))
                 else (APSPatch_new, o1)) of
             (patch1, o4) \<Rightarrow>
               APS_create_loop
                 (patch1\<lparr>aps_header := (aps_header patch1)
                    \<lparr>header_sizeOutput := Some (fileSize modifiedFile)\<rparr>\<rparr>)
                 (seek 0 o4) (seek 0 modifiedFile)))"


section \<open>Theorems\<close>

text \<open>
  C8: the default code table built by the loops is the fixed table of RFC 3284: 256
  entries, RUN at index 0, the single ADDs at 1 to 18, the COPY blocks of the nine modes
  at 19 to 162, the ADD+COPY composites at 163 to 246 and the COPY+ADD composites at
  247 to 255.
\<close>

theorem vcd_default_code_table_rfc3284:
  "VCD_DEFAULT_CODE_TABLE = map rfc3284_entry [0..<256]"
  by code_simp


subsection \<open>The byte cursor's invariant\<close>


lemma length_u8_put [simp]: "length (u8_put d i v) = length d"
  by (simp add: u8_put_def)





































text \<open>
  A buffer of two bytes in an array of three, with the cursor at its end: the
  invariant holds, both hypotheses on the argument are met with \<open>n = 1\<close>, and the
  cursor is at the size. Writing the 16-bit value 258 there gives the bytes
  \<open>01 02 01 02\<close>, with the cursor and the size at 4.
\<close>

definition cursor_example :: BinFile where
  "cursor_example =
     \<lparr>fileName = ''rom.bin'', fileSize = 2, littleEndian = False, offset = 2,
      data = [1, 2, 3], offsetsStack = []\<rparr>"

lemma cursor_example_writeU16:
  "data (writeU16 258 cursor_example) = [1, 2, 1, 2] \<and>
   offset (writeU16 258 cursor_example) = 4 \<and>
   fileSize (writeU16 258 cursor_example) = 4 \<and>
   data (writeU16 258 (cursor_example\<lparr>littleEndian := True\<rparr>)) = [1, 2, 2, 1] \<and>
   map_sum id data (writeBytes [9, 8] cursor_example) = Inr [1, 2, 9, 8] \<and>
   map_sum id offset (writeBytes [9, 8] cursor_example) = Inr 4"
  by code_simp



subsection \<open>Checksum test vectors\<close>

lemmas js_defs =
  js_and_def js_or_def js_xor_def js_shl_def js_sar_def js_shr_def ToInt32_def ToUint32_def

lemma funpow8: "(f ^^ 8) x = f (f (f (f (f (f (f (f x)))))))"
  by (simp add: numeral_eq_Suc)

lemma getCRC32Table_nth: "n < 256 \<Longrightarrow> getCRC32Table ! n = (CRC32_step ^^ 8) (int n)"
  by (simp add: getCRC32Table_def)

lemmas crc32_eval =
  BinFile_of_bytes_def js_slice_def crc32_update_def getCRC32Table_nth funpow8 CRC32_step_def
  js_defs

lemma hashCRC32_empty: "hashCRC32 0 None (BinFile_of_bytes []) = 0"
  unfolding hashCRC32_def Let_def by (simp add: crc32_eval)

lemma hashCRC32_check:
  "hashCRC32 0 None (BinFile_of_bytes [0x31, 0x32, 0x33, 0x34, 0x35, 0x36, 0x37, 0x38, 0x39])
     = 0xCBF43926"
  unfolding hashCRC32_def Let_def by (simp add: crc32_eval)

lemma adler32_wikipedia:
  "adler32 (BinFile_of_bytes [0x57, 0x69, 0x6b, 0x69, 0x70, 0x65, 0x64, 0x69, 0x61]) 0 9
     = 0x11E60398"
  by code_simp

lemma hashMD5_empty: "hashMD5 (BinFile_of_bytes []) = ''00000000000000000000000000000000''"
  by code_simp

text \<open>
  C7: the CRC32 and Adler-32 vectors hold on the code (CRC32 of no bytes is 0, of
  \<open>123456789\<close> is \<open>0xCBF43926\<close>; Adler-32 of \<open>Wikipedia\<close> is \<open>0x11E60398\<close>), but
  \<open>hashMD5\<close> of the empty buffer is the string of 32 zeros, not the MD5 digest
  \<open>d41d8cd98f00b204e9800998ecf8427e\<close>.
\<close>

theorem checksum_vectors_md5_placeholder:
  "hashCRC32 0 None (BinFile_of_bytes []) = 0 \<and>
   hashCRC32 0 None (BinFile_of_bytes [0x31, 0x32, 0x33, 0x34, 0x35, 0x36, 0x37, 0x38, 0x39])
     = 0xCBF43926 \<and>
   adler32 (BinFile_of_bytes [0x57, 0x69, 0x6b, 0x69, 0x70, 0x65, 0x64, 0x69, 0x61]) 0 9
     = 0x11E60398 \<and>
   hashMD5 (BinFile_of_bytes []) = ''00000000000000000000000000000000'' \<and>
   hashMD5 (BinFile_of_bytes []) \<noteq> ''d41d8cd98f00b204e9800998ecf8427e''"
  using hashCRC32_empty hashCRC32_check adler32_wikipedia hashMD5_empty by simp

subsection \<open>Variable-length values: the round trip\<close>

text \<open>
  C2: the round trip through \<open>BinFile.writeVLV\<close> and \<open>BinFile.readVLV\<close> fails at
  \<open>x = 128\<close>: the writer emits \<open>80 01\<close> (it does not subtract the continuation bias
  that the reader adds), and the reader decodes these bytes to 256. The RUP encoding of
  \<open>2^32\<close> is \<open>01 00\<close>, which decodes to 0.
\<close>

theorem vlv_roundtrip_fails:
  "map_option (\<lambda>g. (data g, fst (readVLV (seek 0 g)))) (writeVLV 128 (BinFile_of_bytes []))
     = Some ([128, 1], 256) \<and>
   map_option (\<lambda>g. (data g, fst (RUP_readVLV (seek 0 g))))
       (RUP_writeVLV (BinFile_of_bytes []) 4294967296)
     = Some ([1, 0], 0)"
  by code_simp

subsection \<open>BPS: the SourceRead action\<close>

text \<open>
  The source \<open>01 .. 08\<close>, the target \<open>09 02 .. 08\<close>, and the patch the linear builder
  makes of them: the first byte as a TargetRead, the seven equal bytes as a SourceRead,
  with the CRC32s of the source and of the target.
\<close>

definition bps_source :: BinFile where
  "bps_source = BinFile_of_bytes [1, 2, 3, 4, 5, 6, 7, 8]"

definition bps_target :: BinFile where
  "bps_target = BinFile_of_bytes [9, 2, 3, 4, 5, 6, 7, 8]"

definition bps_example :: BPSPatch where
  "bps_example =
     \<lparr>bps_sourceSize = 8, bps_targetSize = 8, bps_metaData = [],
      bps_actions = [TargetRead 1 [9], SourceRead 7],
      bps_sourceChecksum = 1070237893, bps_targetChecksum = 3962540912,
      bps_patchChecksum = 0\<rparr>"

definition bps_output :: BinFile where
  "bps_output =
     \<lparr>fileName = [], fileSize = 8, littleEndian = False, offset = 8,
      data = [9, 1, 2, 3, 4, 5, 6, 7], offsetsStack = []\<rparr>"

lemma bps_source_crc: "hashCRC32 0 None bps_source = 1070237893"
  unfolding hashCRC32_def Let_def bps_source_def by (simp add: crc32_eval)

lemma bps_target_crc: "hashCRC32 0 None bps_target = 3962540912"
  unfolding hashCRC32_def Let_def bps_target_def by (simp add: crc32_eval)

lemma bps_output_crc: "hashCRC32 0 None bps_output = 2548396980"
  unfolding hashCRC32_def Let_def bps_output_def by (simp add: crc32_eval)

lemma bps_example_tempFile:
  "BinFile_of_size 8 =
     Inr \<lparr>fileName = [], fileSize = 8, littleEndian = False, offset = 0,
          data = [0, 0, 0, 0, 0, 0, 0, 0], offsetsStack = []\<rparr>"
  by code_simp

lemma bps_example_actions:
  "BPS_apply_actions bps_source [TargetRead 1 [9], SourceRead 7]
      (\<lparr>fileName = [], fileSize = 8, littleEndian = False, offset = 0,
        data = [0, 0, 0, 0, 0, 0, 0, 0], offsetsStack = []\<rparr>, 0, 0)
   = Some (Inr (bps_output, 0, 0))"
  by code_simp

lemma bps_example_name: "setName (patchedName bps_source) bps_output = bps_output\<lparr>fileName := '' (patched)''\<rparr>"
  by code_simp

lemma bps_example_apply_validated:
  "BPS_apply bps_example bps_source True = Some (Inl (Error ''Target ROM checksum mismatch''))"
  by (simp add: BPS_apply_def BPS_validateSource_def bps_example_def bps_source_crc
      bps_example_tempFile bps_example_actions bps_output_crc del: BPS_apply_actions.simps)

lemma bps_example_apply_unvalidated:
  "BPS_apply bps_example bps_source False = Some (Inr (bps_output\<lparr>fileName := '' (patched)''\<rparr>))"
  by (simp add: BPS_apply_def bps_example_def bps_example_tempFile bps_example_actions
      bps_example_name del: BPS_apply_actions.simps)

lemma bps_source_read_step:
  "BPS_apply_action bps_source (SourceRead 2)
      (\<lparr>fileName = [], fileSize = 8, littleEndian = False, offset = 1,
        data = [9, 0, 0, 0, 0, 0, 0, 0], offsetsStack = []\<rparr>, 0, 0)
   = Some (Inr (\<lparr>fileName = [], fileSize = 8, littleEndian = False, offset = 5,
        data = [9, 1, 2, 0, 0, 0, 0, 0], offsetsStack = []\<rparr>, 0, 0))"
  by code_simp

lemma bps_source_at_output_offset: "js_slice (data bps_source) 1 (1 + 2) = [2, 3]"
  by code_simp

text \<open>
  C3: a SourceRead of 2 bytes at output offset 1 writes the source's bytes 0 and 1 (the
  bytes at the source file's own cursor) where the source's bytes 1 and 2 belong, and
  leaves the output offset at 5 instead of 3. On the patch of the example the output is
  \<open>09 01 02 03 04 05 06 07\<close> instead of the target, and the validated apply ends in
  \<open>Target ROM checksum mismatch\<close>.
\<close>

theorem bps_source_read_diverges:
  "BPS_apply_action bps_source (SourceRead 2)
      (\<lparr>fileName = [], fileSize = 8, littleEndian = False, offset = 1,
        data = [9, 0, 0, 0, 0, 0, 0, 0], offsetsStack = []\<rparr>, 0, 0)
   = Some (Inr (\<lparr>fileName = [], fileSize = 8, littleEndian = False, offset = 5,
        data = [9, 1, 2, 0, 0, 0, 0, 0], offsetsStack = []\<rparr>, 0, 0)) \<and>
   js_slice (data bps_source) 1 (1 + 2) = [2, 3] \<and>
   hashCRC32 0 None bps_source = bps_sourceChecksum bps_example \<and>
   hashCRC32 0 None bps_target = bps_targetChecksum bps_example \<and>
   BPS_apply bps_example bps_source True
     = Some (Inl (Error ''Target ROM checksum mismatch'')) \<and>
   BPS_apply bps_example bps_source False
     = Some (Inr (bps_output\<lparr>fileName := '' (patched)''\<rparr>)) \<and>
   data bps_output \<noteq> data bps_target"
  using bps_source_read_step bps_source_at_output_offset bps_source_crc bps_target_crc
    bps_example_apply_validated bps_example_apply_unvalidated
  by (simp add: bps_example_def bps_output_def bps_target_def BinFile_of_bytes_def)

subsection \<open>UPS: a source longer than the declared size\<close>

text \<open>
  The identity patch of the one-byte file \<open>01\<close>: no records, both sizes 1, both
  checksums the CRC32 of \<open>01\<close>. The source \<open>01 02\<close> agrees with it on the declared
  range and has one byte more.
\<close>

definition ups_example :: UPSPatch where
  "ups_example =
     \<lparr>upsRecords = [], sizeInput = 1, sizeOutput = 1,
      checksumInput = 2768625435, checksumOutput = 2768625435\<rparr>"

definition ups_long_source :: BinFile where
  "ups_long_source = BinFile_of_bytes [1, 2]"

lemma ups_declared_crc: "hashCRC32 0 None (BinFile_of_bytes [1]) = 2768625435"
  unfolding hashCRC32_def Let_def by (simp add: crc32_eval)

lemma ups_long_source_crc_range: "hashCRC32 0 (Some 1) ups_long_source = 2768625435"
  unfolding hashCRC32_def Let_def ups_long_source_def by (simp add: crc32_eval)

lemma ups_long_source_crc: "hashCRC32 0 None ups_long_source = 3066839698"
  unfolding hashCRC32_def Let_def ups_long_source_def by (simp add: crc32_eval)

text \<open>
  C6: \<open>validateSource\<close> takes the CRC32 of the whole source buffer, so on the longer
  source the apply stops with \<open>Source ROM checksum mismatch\<close>, although the CRC32 over
  the declared range \<open>[0, 1)\<close> is the declared one.
\<close>

theorem ups_longer_source_rejected:
  "fileSize ups_long_source > sizeInput ups_example \<and>
   js_slice (data ups_long_source) 0 (sizeInput ups_example) = [1] \<and>
   hashCRC32 0 None (BinFile_of_bytes [1]) = checksumInput ups_example \<and>
   hashCRC32 0 (Some (sizeInput ups_example)) ups_long_source = checksumInput ups_example \<and>
   hashCRC32 0 None ups_long_source = 3066839698 \<and>
   UPS_apply ups_example ups_long_source = Inl (Error ''Source ROM checksum mismatch'')"
  using ups_declared_crc ups_long_source_crc_range ups_long_source_crc
  by (simp add: UPS_apply_def UPS_validateSource_def ups_example_def)
    (simp add: ups_long_source_def BinFile_of_bytes_def js_slice_def)

subsection \<open>IPS: create, then apply\<close>

lemma IPS_bytes_same_size:
  "fileSize originalFile = fileSize modifiedFile \<Longrightarrow>
     IPS_originalByte originalFile off = IPS_modifiedByte originalFile modifiedFile off"
  by (simp add: IPS_originalByte_def IPS_modifiedByte_def)

text \<open>
  For two files of the same size the builder finds no difference at any offset, whatever
  their bytes are: the patch has no record and no truncation.
\<close>

lemma IPS_create_loop_same_size:
  "fileSize originalFile = fileSize modifiedFile \<Longrightarrow>
     IPS_create_loop originalFile modifiedFile maxSize off patch = patch"
proof (induction originalFile modifiedFile maxSize off patch rule: IPS_create_loop.induct)
  case (1 originalFile modifiedFile maxSize off patch)
  show ?case
  proof (cases "off < maxSize")
    case True
    with 1 show ?thesis
      by (subst IPS_create_loop.simps) (simp add: IPS_bytes_same_size)
  next
    case False
    then show ?thesis by (subst IPS_create_loop.simps) simp
  qed
qed

lemma IPS_create_same_size:
  "fileSize originalFile = fileSize modifiedFile \<Longrightarrow>
     IPS_create originalFile modifiedFile None = IPSPatch_new"
  by (simp add: IPS_create_def IPS_create_loop_same_size)

subsection \<open>APS for N64: create, then apply\<close>

text \<open>
  The source \<open>07 07 07\<close> and the modified file \<open>05 05 05\<close>: one run of three equal
  differing bytes, which the builder hands to \<open>addRLERecord\<close>.
\<close>

definition aps_source :: BinFile where
  "aps_source = BinFile_of_bytes [7, 7, 7]"

definition aps_modified :: BinFile where
  "aps_modified = BinFile_of_bytes [5, 5, 5]"

text \<open>
  The patch has no record. The builder leaves the cursor of the source at its end, and
  \<open>apply\<close> copies the source from its cursor: on the source as the builder left it the
  output is all zero, on the source with its cursor at 0 it is the source.
\<close>

lemma aps_example_create:
  "apsRecords (fst (APS_create aps_source aps_modified)) = [] \<and>
   header_sizeOutput (aps_header (fst (APS_create aps_source aps_modified))) = Some 3 \<and>
   offset (fst (snd (APS_create aps_source aps_modified))) = 3"
  by code_simp

lemma aps_example_apply:
  "map_sum id getBytes
     (APS_apply (fst (APS_create aps_source aps_modified))
        (fst (snd (APS_create aps_source aps_modified)))) = Inr [0, 0, 0] \<and>
   map_sum id getBytes
     (APS_apply (fst (APS_create aps_source aps_modified)) aps_source) = Inr [7, 7, 7]"
  by code_simp

text \<open>
  The inner loop of the builder pushes the first differing byte at every turn: for the
  source \<open>00 00\<close> and the modified file \<open>01 02\<close> the record holds \<open>01 01\<close>.
\<close>

lemma aps_example_two:
  "apsRecords (fst (APS_create (BinFile_of_bytes [0, 0]) (BinFile_of_bytes [1, 2])))
     = [\<lparr>aps_offset = 0, aps_type = APS_RECORD_SIMPLE, aps_data = Some [Num 1, Num 1],
         aps_length = None, aps_byte = Undefined\<rparr>] \<and>
   map_sum id getBytes
     (APS_apply (fst (APS_create (BinFile_of_bytes [0, 0]) (BinFile_of_bytes [1, 2])))
        (BinFile_of_bytes [0, 0])) = Inr [1, 1]"
  by code_simp

text \<open>
  The metadata object of an EBP patch: the key \<open>2\<close> is an array index and comes before
  \<open>patcher\<close>, the key \<open>title\<close> after it.
\<close>

lemma isArrayIndex_examples:
  "isArrayIndex ''0'' \<and> isArrayIndex ''10'' \<and> isArrayIndex ''4294967294'' \<and>
   list_all (\<lambda>k. isArrayIndex k = False)
     [''4294967295'', ''01'', [], ''1a'', ''-1'', ''title'']"
  by code_simp

lemma js_property_order_example:
  "js_property_order [(''b'', ''1''), (''10'', ''2''), (''a'', ''3''), (''9'', ''4'')]
     = [(''9'', ''4''), (''10'', ''2''), (''b'', ''1''), (''a'', ''3'')]"
  by code_simp

lemma setEBPMetadata_order:
  "ips_metadata (setEBPMetadata [(''title'', ''T''), (''2'', ''two'')] IPSPatch_new)
     = Some [(''2'', ''two''), (''patcher'', ''EBPatcher''), (''title'', ''T'')] \<and>
   ips_metadata (setEBPMetadata [(''title'', ''T''), (''patcher'', ''P'')] IPSPatch_new)
     = Some [(''patcher'', ''P''), (''title'', ''T'')]"
  by code_simp

text \<open>
  C1: for the source \<open>00\<close> and the modified file \<open>01\<close> the IPS builder returns the
  empty patch (it compares the source byte with itself), and applying that patch to the
  source gives \<open>00\<close> again, not \<open>01\<close>. For the source \<open>07 07 07\<close> and the modified file
  \<open>05 05 05\<close> the APS builder returns a patch with no record (\<open>addRLERecord\<close> adds
  none), and applying it to the source gives \<open>07 07 07\<close>, not \<open>05 05 05\<close>.
\<close>

theorem create_apply_not_modified:
  "IPS_create (BinFile_of_bytes [0]) (BinFile_of_bytes [1]) None
     = \<lparr>ips_records = [], ips_truncate = None, ips_metadata = None\<rparr> \<and>
   IPS_apply (IPS_create (BinFile_of_bytes [0]) (BinFile_of_bytes [1]) None)
       (BinFile_of_bytes [0])
     = Inr ((BinFile_of_bytes [0])\<lparr>fileName := '' (patched)''\<rparr>) \<and>
   getBytes ((BinFile_of_bytes [0])\<lparr>fileName := '' (patched)''\<rparr>)
     \<noteq> getBytes (BinFile_of_bytes [1]) \<and>
   apsRecords (fst (APS_create aps_source aps_modified)) = [] \<and>
   map_sum id getBytes
     (APS_apply (fst (APS_create aps_source aps_modified)) aps_source) = Inr [7, 7, 7] \<and>
   getBytes aps_modified = [5, 5, 5]"
  by code_simp

subsection \<open>PPF: export, then parse\<close>

text \<open>
  Doubles: an integer below \<open>2^53\<close> is kept, \<open>2^53 + 1\<close> and \<open>2^53 + 3\<close> go to their even
  neighbours, and the largest 64-bit offset reads as \<open>2^64\<close>.
\<close>

lemma toDouble_exact: "x < 9007199254740992 \<Longrightarrow> toDouble x = x"
  by (simp add: toDouble_def double_exponent.simps [of x])

lemma toDouble_examples:
  "toDouble 4294967297 = 4294967297 \<and>
   toDouble 9007199254740993 = 9007199254740992 \<and>
   toDouble 9007199254740995 = 9007199254740996 \<and>
   toDouble 18446744073709551615 = 18446744073709551616"
  by code_simp

text \<open>
  The version 3 offset bytes \<open>01 00 00 00 00 00 20 00\<close> are \<open>2^53 + 1\<close> as a 64-bit
  little-endian number; the parser reads \<open>2^53\<close>.
\<close>

lemma PPF_read_offset_rounds:
  "fst (PPF_read_offset 3 ((BinFile_of_bytes [1, 0, 0, 0, 0, 0, 32, 0])\<lparr>littleEndian := True\<rparr>))
     = 9007199254740992"
  by code_simp


text \<open>
  A version 3 patch with one record: the byte \<open>AA\<close> at offset 1. It is what the
  parser reads from a PPF3 file with the version byte 2, the description padded with
  spaces, four zero bytes and the record with its offset as a 64-bit little-endian
  number.
\<close>

definition ppf_example :: PPFPatch where
  "ppf_example =
     PPFPatch_new\<lparr>ppf_records := [\<lparr>ppf_offset = 1, ppf_data = [170], ppf_undoData = None\<rparr>]\<rparr>"

definition ppf_source_file :: BinFile where
  "ppf_source_file =
     BinFile_of_bytes
       ([80, 80, 70, 51, 48, 2] @ map of_char ''Patch description'' @ replicate 33 32
        @ [0, 0, 0, 0] @ [1, 0, 0, 0, 0, 0, 0, 0, 1, 170])"

lemma ppf_example_parsed: "map_sum id fst (PPF_fromFile ppf_source_file) = Inr ppf_example"
  by code_simp

definition ppf_example_file :: BinFile where
  "ppf_example_file =
     \<lparr>fileName = ''patch.ppf'', fileSize = 70, littleEndian = True, offset = 70,
      data = [80, 80, 70, 51, 48, 4] @ map of_char ''Patch description'' @ replicate 33 32
             @ [0, 0, 0, 0] @ [1, 0, 0, 0, 1, 0, 0, 0, 1, 170],
      offsetsStack = []\<rparr>"

lemma ppf_example_export: "PPF_export ppf_example None = Inr ppf_example_file"
  by code_simp

lemma ppf_example_parse:
  "PPF_fromFile ppf_example_file = Inl (InvalidPatchFileError ''Invalid PPF version'')"
  by code_simp

lemma ppf_example_record_written:
  "run_writes (PPF_write_record ppf_example
       \<lparr>ppf_offset = 1, ppf_data = [170], ppf_undoData = None\<rparr>)
     ((BinFile_of_bytes [])\<lparr>littleEndian := True\<rparr>)
   = Inr \<lparr>fileName = [], fileSize = 10, littleEndian = True, offset = 10,
          data = [1, 0, 0, 0, 1, 0, 0, 0, 1, 170], offsetsStack = []\<rparr>"
  by code_simp

lemma ppf_example_record_read:
  "ppf_records (fst (PPF_read_records PPFPatch_new
       ((BinFile_of_bytes [1, 0, 0, 0, 1, 0, 0, 0, 1, 170])\<lparr>littleEndian := True\<rparr>)))
   = [\<lparr>ppf_offset = 4294967297, ppf_data = [170], ppf_undoData = None\<rparr>]"
  by code_simp

text \<open>
  C4: the example is a parsed patch, and its exported file starts \<open>PPF30\<close> and the
  version byte 4 (\<open>version + 1\<close>); the parser adds 1 to that byte and compares 5 with
  3, so parsing the export fails. The record itself is written with its low word repeated as the high word
  (\<open>offset >> 32\<close> shifts by 0), and the record loop reads the offset 1 back as
  \<open>2^32 + 1\<close>.
\<close>

theorem ppf_export_parse_not_identity:
  "map_sum id fst (PPF_fromFile ppf_source_file) = Inr ppf_example \<and>
   PPF_export ppf_example None = Inr ppf_example_file \<and>
   take 6 (data ppf_example_file) = [80, 80, 70, 51, 48, 4] \<and>
   PPF_fromFile ppf_example_file = Inl (InvalidPatchFileError ''Invalid PPF version'') \<and>
   run_writes (PPF_write_record ppf_example
       \<lparr>ppf_offset = 1, ppf_data = [170], ppf_undoData = None\<rparr>)
     ((BinFile_of_bytes [])\<lparr>littleEndian := True\<rparr>)
   = Inr \<lparr>fileName = [], fileSize = 10, littleEndian = True, offset = 10,
          data = [1, 0, 0, 0, 1, 0, 0, 0, 1, 170], offsetsStack = []\<rparr> \<and>
   ppf_records (fst (PPF_read_records PPFPatch_new
       ((BinFile_of_bytes [1, 0, 0, 0, 1, 0, 0, 0, 1, 170])\<lparr>littleEndian := True\<rparr>)))
   = [\<lparr>ppf_offset = 4294967297, ppf_data = [170], ppf_undoData = None\<rparr>]"
  using ppf_example_parsed ppf_example_export ppf_example_parse ppf_example_record_written
    ppf_example_record_read
  by (simp add: ppf_example_file_def)

subsection \<open>The dispatcher's parse\<close>

lemma parsePatchFile_small:
  "fileSize f < 5 \<Longrightarrow>
     parsePatchFile modules f = Inl (InvalidPatchFileError ''Patch file is too small'')"
  by (simp add: parsePatchFile_def seek_def)

lemma parsePatchFile_large:
  "5 \<le> fileSize f \<Longrightarrow>
     parsePatchFile modules f = try_modules modules (header_of f) (file_for_codec f)"
  by (simp add: parsePatchFile_def header_of_def file_for_codec_def seek_def split_beta)

lemmas magic_defs =
  IPS_MAGIC_def UPS_MAGIC_def APS_GBA_MAGIC_def PMSR_MAGIC_def VCDIFF_MAGIC_def

lemma try_modules_IPS:
  assumes "prefix IPS_MAGIC h"
  shows "try_modules (formatModules ips ups apsgba pmsr vcdiff) h f
           = codec_outcome IPS_MAGIC (ips f)"
proof -
  from assms obtain r where h: "h = ''PATCH'' @ r"
    by (auto simp: IPS_MAGIC_def elim: prefixE)
  show ?thesis unfolding h formatModules_def codec_outcome_def magic_defs
    by (simp split: sum.split option.split prod.split)
qed

lemma try_modules_UPS:
  assumes "prefix UPS_MAGIC h"
  shows "try_modules (formatModules ips ups apsgba pmsr vcdiff) h f
           = codec_outcome UPS_MAGIC (ups f)"
proof -
  from assms obtain r where h: "h = ''UPS1'' @ r"
    by (auto simp: UPS_MAGIC_def elim: prefixE)
  show ?thesis unfolding h formatModules_def codec_outcome_def magic_defs
    by (simp split: sum.split option.split prod.split)
qed

lemma try_modules_APS_GBA:
  assumes "prefix APS_GBA_MAGIC h"
  shows "try_modules (formatModules ips ups apsgba pmsr vcdiff) h f
           = codec_outcome APS_GBA_MAGIC (apsgba f)"
proof -
  from assms obtain r where h: "h = ''APS1'' @ r"
    by (auto simp: APS_GBA_MAGIC_def elim: prefixE)
  show ?thesis unfolding h formatModules_def codec_outcome_def magic_defs
    by (simp split: sum.split option.split prod.split)
qed

lemma try_modules_PMSR:
  assumes "prefix PMSR_MAGIC h"
  shows "try_modules (formatModules ips ups apsgba pmsr vcdiff) h f
           = codec_outcome PMSR_MAGIC (pmsr f)"
proof -
  from assms obtain r where h: "h = ''PMSR'' @ r"
    by (auto simp: PMSR_MAGIC_def elim: prefixE)
  show ?thesis unfolding h formatModules_def codec_outcome_def magic_defs
    by (simp split: sum.split option.split prod.split)
qed

lemma try_modules_VCDIFF:
  assumes "prefix VCDIFF_MAGIC h"
  shows "try_modules (formatModules ips ups apsgba pmsr vcdiff) h f
           = codec_outcome VCDIFF_MAGIC (vcdiff f)"
proof -
  from assms obtain r where h: "h = [CHR 0xD6, CHR 0xC3, CHR 0xC4] @ r"
    by (auto simp: VCDIFF_MAGIC_def elim: prefixE)
  show ?thesis unfolding h formatModules_def codec_outcome_def magic_defs
    by (simp split: sum.split option.split prod.split)
qed

lemma try_modules_none:
  "list_all (\<lambda>m. \<not> prefix m h) spec_magics \<Longrightarrow>
     try_modules (formatModules ips ups apsgba pmsr vcdiff) h f
       = Inl (UnsupportedFormatError ''Unknown patch format'')"
  by (simp add: formatModules_def spec_magics_def magic_defs)

text \<open>
  C5 (as amended): a buffer shorter than 5 bytes is reported as an invalid patch file.
  For a buffer of at least 5 bytes that starts with the magic of a registered codec
  (\<open>PATCH\<close>, \<open>UPS1\<close>, \<open>APS1\<close> not followed by \<open>0\<close>, \<open>PMSR\<close>, \<open>D6 C3 C4\<close>), the
  result is that codec's: its patch, an invalid patch file when it throws, an
  unsupported format when it returns \<open>null\<close>. A buffer of at least 5 bytes that starts
  with none of the nine magics is reported as an unsupported format.
\<close>

theorem dispatcher_parse_registered:
  "(fileSize f < 5 \<longrightarrow>
      parsePatchFile (formatModules ips ups apsgba pmsr vcdiff) f
        = Inl (InvalidPatchFileError ''Patch file is too small'')) \<and>
   (5 \<le> fileSize f \<and> prefix IPS_MAGIC (header_of f) \<longrightarrow>
      parsePatchFile (formatModules ips ups apsgba pmsr vcdiff) f
        = codec_outcome IPS_MAGIC (ips (file_for_codec f))) \<and>
   (5 \<le> fileSize f \<and> prefix UPS_MAGIC (header_of f) \<longrightarrow>
      parsePatchFile (formatModules ips ups apsgba pmsr vcdiff) f
        = codec_outcome UPS_MAGIC (ups (file_for_codec f))) \<and>
   (5 \<le> fileSize f \<and> prefix APS_GBA_MAGIC (header_of f) \<and> \<not> prefix ''APS10'' (header_of f) \<longrightarrow>
      parsePatchFile (formatModules ips ups apsgba pmsr vcdiff) f
        = codec_outcome APS_GBA_MAGIC (apsgba (file_for_codec f))) \<and>
   (5 \<le> fileSize f \<and> prefix PMSR_MAGIC (header_of f) \<longrightarrow>
      parsePatchFile (formatModules ips ups apsgba pmsr vcdiff) f
        = codec_outcome PMSR_MAGIC (pmsr (file_for_codec f))) \<and>
   (5 \<le> fileSize f \<and> prefix VCDIFF_MAGIC (header_of f) \<longrightarrow>
      parsePatchFile (formatModules ips ups apsgba pmsr vcdiff) f
        = codec_outcome VCDIFF_MAGIC (vcdiff (file_for_codec f))) \<and>
   (5 \<le> fileSize f \<and> list_all (\<lambda>m. \<not> prefix m (header_of f)) spec_magics \<longrightarrow>
      parsePatchFile (formatModules ips ups apsgba pmsr vcdiff) f
        = Inl (UnsupportedFormatError ''Unknown patch format''))"
  by (simp add: parsePatchFile_small parsePatchFile_large try_modules_IPS try_modules_UPS
      try_modules_APS_GBA try_modules_PMSR try_modules_VCDIFF try_modules_none)

text \<open>
  Three buffers: \<open>AB\<close> (two bytes), \<open>UPS1\<close> followed by two zero bytes, and \<open>HELLO!\<close>;
  the UPS codec of the example returns the patch 7, the others return \<open>null\<close>.
\<close>

definition null_codec :: "nat codec_parse" where
  "null_codec f = Inr (None, f)"

definition seven_codec :: "nat codec_parse" where
  "seven_codec f = Inr (Some 7, f)"

definition two_bytes :: BinFile where
  "two_bytes = BinFile_of_bytes [0x41, 0x42]"

definition ups_magic_file :: BinFile where
  "ups_magic_file = BinFile_of_bytes [0x55, 0x50, 0x53, 0x31, 0, 0]"

definition hello_file :: BinFile where
  "hello_file = BinFile_of_bytes [0x48, 0x45, 0x4C, 0x4C, 0x4F, 0x21]"

theorem dispatcher_parse_registered_witness:
  "fileSize two_bytes < 5 \<and>
   parsePatchFile (formatModules null_codec seven_codec null_codec null_codec null_codec)
      two_bytes = Inl (InvalidPatchFileError ''Patch file is too small'') \<and>
   5 \<le> fileSize ups_magic_file \<and> prefix UPS_MAGIC (header_of ups_magic_file) \<and>
   parsePatchFile (formatModules null_codec seven_codec null_codec null_codec null_codec)
      ups_magic_file = Inr 7 \<and>
   5 \<le> fileSize hello_file \<and>
   list_all (\<lambda>m. \<not> prefix m (header_of hello_file)) spec_magics \<and>
   parsePatchFile (formatModules null_codec seven_codec null_codec null_codec null_codec)
      hello_file = Inl (UnsupportedFormatError ''Unknown patch format'')"
proof -
  have h1: "fileSize two_bytes < 5" by code_simp
  have h2: "5 \<le> fileSize ups_magic_file \<and> prefix UPS_MAGIC (header_of ups_magic_file)"
    by code_simp
  have h3: "5 \<le> fileSize hello_file \<and>
      list_all (\<lambda>m. \<not> prefix m (header_of hello_file)) spec_magics"
    by code_simp
  have o: "codec_outcome UPS_MAGIC (seven_codec (file_for_codec ups_magic_file)) = Inr 7"
    by (simp add: codec_outcome_def seven_codec_def)
  from dispatcher_parse_registered
    [of two_bytes null_codec seven_codec null_codec null_codec null_codec] h1
  have r1: "parsePatchFile (formatModules null_codec seven_codec null_codec null_codec
      null_codec) two_bytes = Inl (InvalidPatchFileError ''Patch file is too small'')"
    by blast
  from dispatcher_parse_registered
    [of ups_magic_file null_codec seven_codec null_codec null_codec null_codec] h2 o
  have r2: "parsePatchFile (formatModules null_codec seven_codec null_codec null_codec
      null_codec) ups_magic_file = Inr 7"
    by simp
  from dispatcher_parse_registered
    [of hello_file null_codec seven_codec null_codec null_codec null_codec] h3
  have r3: "parsePatchFile (formatModules null_codec seven_codec null_codec null_codec
      null_codec) hello_file = Inl (UnsupportedFormatError ''Unknown patch format'')"
    by blast
  from h1 h2 h3 r1 r2 r3 show ?thesis by blast
qed

text \<open>
  The claim as stated fails on the two-byte buffer \<open>AB\<close>: it starts with none of the
  magics, and the dispatcher reports an invalid patch file, not an unsupported format.
\<close>

theorem dispatcher_parse_counterexample:
  "list_all (\<lambda>m. \<not> prefix m (header_of two_bytes)) spec_magics \<and>
   parsePatchFile (formatModules null_codec null_codec null_codec null_codec null_codec)
      two_bytes = Inl (InvalidPatchFileError ''Patch file is too small'') \<and>
   parsePatchFile (formatModules null_codec null_codec null_codec null_codec null_codec)
      two_bytes \<noteq> Inl (UnsupportedFormatError ''Unknown patch format'')"
  by code_simp

subsection \<open>Clone: no shared storage\<close>

text \<open>
  \<open>frame st st' b c\<close>: going from \<open>st\<close> to \<open>st'\<close> left the object \<open>b\<close> and its array
  as they were, and \<open>b\<close> and \<open>c\<close> are still separate.
\<close>

definition frame :: "store \<Rightarrow> store \<Rightarrow> nat \<Rightarrow> nat \<Rightarrow> bool" where
  "frame st st' b c \<longleftrightarrow>
     separate st' b c \<and> objects st' ! b = objects st ! b \<and>
     arrays st' ! obj_data (objects st ! b) = arrays st ! obj_data (objects st ! b)"

lemma frame_refl: "separate st b c \<Longrightarrow> frame st st b c"
  by (simp add: frame_def)

lemma frame_trans: "frame st st1 b c \<Longrightarrow> frame st1 st2 b c \<Longrightarrow> frame st st2 b c"
  by (simp add: frame_def)

lemma frame_separate: "frame st st' b c \<Longrightarrow> separate st' b c"
  by (simp add: frame_def)

lemma frame_view: "frame st st' b c \<Longrightarrow> s_view st' b = s_view st b"
  by (simp add: frame_def s_view_def)

lemma s_expand_frame: "separate st b c \<Longrightarrow> frame st (s_expand n c st) b c"
  by (auto simp: frame_def separate_def s_expand_def new_Uint8Array_def nth_append)

lemma s_store_byte_frame: "separate st b c \<Longrightarrow> frame st (s_store_byte v c st) b c"
  by (auto simp: frame_def separate_def s_store_byte_def)

lemma s_advance_frame: "separate st b c \<Longrightarrow> frame st (s_advance n c st) b c"
  by (auto simp: frame_def separate_def s_advance_def)

lemma s_set_bytes_frame: "separate st b c \<Longrightarrow> frame st (s_set_bytes bs c st) b c"
  by (auto simp: frame_def separate_def s_set_bytes_def)

lemma s_writeU8_frame:
  assumes "separate st b c"
  shows "frame st (s_writeU8 v c st) b c"
proof -
  define st1 where "st1 = (if obj_offset (objects st ! c)
      \<ge> int (length (arrays st ! obj_data (objects st ! c)))
    then s_expand (obj_offset (objects st ! c) + 1) c st else st)"
  have 1: "frame st st1 b c"
    using assms by (simp add: st1_def s_expand_frame frame_refl)
  have 2: "frame st1 (s_store_byte v c st1) b c"
    by (rule s_store_byte_frame [OF frame_separate [OF 1]])
  have 3: "frame (s_store_byte v c st1) (s_advance 1 c (s_store_byte v c st1)) b c"
    by (rule s_advance_frame [OF frame_separate [OF 2]])
  have "s_writeU8 v c st = s_advance 1 c (s_store_byte v c st1)"
    by (simp add: s_writeU8_def st1_def)
  with frame_trans [OF frame_trans [OF 1 2] 3] show ?thesis by simp
qed

lemma s_writeU8_twice_frame:
  assumes "separate st b c"
  shows "frame st (s_writeU8 w c (s_writeU8 v c st)) b c"
  by (rule frame_trans [OF s_writeU8_frame [OF assms]
        s_writeU8_frame [OF frame_separate [OF s_writeU8_frame [OF assms]]]])

lemma s_writeU16_frame: "separate st b c \<Longrightarrow> frame st (s_writeU16 v c st) b c"
  by (simp add: s_writeU16_def s_writeU8_twice_frame)

lemma s_writeU24_frame:
  assumes "separate st b c"
  shows "frame st (s_writeU24 v c st) b c"
proof -
  have "frame st (s_writeU8 z c (s_writeU8 y c (s_writeU8 x c st))) b c" for x y z
    by (rule frame_trans [OF s_writeU8_twice_frame [OF assms]
          s_writeU8_frame [OF frame_separate [OF s_writeU8_twice_frame [OF assms]]]])
  then show ?thesis by (simp add: s_writeU24_def)
qed

lemma s_writeU32_frame:
  assumes "separate st b c"
  shows "frame st (s_writeU32 v c st) b c"
proof -
  have "frame st (s_writeU8 u c (s_writeU8 z c (s_writeU8 y c (s_writeU8 x c st)))) b c"
    for x y z u
    by (rule frame_trans [OF s_writeU8_twice_frame [OF assms]
          s_writeU8_twice_frame [OF frame_separate [OF s_writeU8_twice_frame [OF assms]]]])
  then show ?thesis by (simp add: s_writeU32_def)
qed

lemma s_writeBytes_frame:
  assumes "separate st b c" and "s_writeBytes bs c st = Inr st'"
  shows "frame st st' b c"
proof -
  define st1 where "st1 = (if obj_offset (objects st ! c) + int (length bs)
      > int (length (arrays st ! obj_data (objects st ! c)))
    then s_expand (obj_offset (objects st ! c) + int (length bs)) c st else st)"
  have 1: "frame st st1 b c"
    using assms(1) by (simp add: st1_def s_expand_frame frame_refl)
  have 2: "frame st1 (s_set_bytes bs c st1) b c"
    by (rule s_set_bytes_frame [OF frame_separate [OF 1]])
  have 3: "frame (s_set_bytes bs c st1) (s_advance (int (length bs)) c (s_set_bytes bs c st1)) b c"
    by (rule s_advance_frame [OF frame_separate [OF 2]])
  from assms(2) have "st' = s_advance (int (length bs)) c (s_set_bytes bs c st1)"
    by (simp add: s_writeBytes_def st1_def Let_def split: if_splits)
  with frame_trans [OF frame_trans [OF 1 2] 3] show ?thesis by simp
qed

lemma s_op_frame:
  assumes "separate st b c" and "s_op x c st = Inr st'"
  shows "frame st st' b c"
  using assms
  by (cases x)
    (auto simp: s_writeU8_frame s_writeU16_frame s_writeU24_frame s_writeU32_frame
      s_expand_frame intro: s_writeBytes_frame)

lemma s_run_frame: "separate st b c \<Longrightarrow> frame st (s_run cs c st) b c"
proof (induction cs arbitrary: st)
  case Nil
  then show ?case by (simp add: frame_refl)
next
  case (Cons x cs)
  show ?case
  proof (cases "s_op x c st")
    case (Inl e)
    with Cons.prems show ?thesis by (simp add: frame_refl)
  next
    case (Inr st1)
    from s_op_frame [OF Cons.prems Inr] have 1: "frame st st1 b c" .
    from Cons.IH [OF frame_separate [OF 1]] have "frame st1 (s_run cs c st1) b c" .
    with 1 Inr show ?thesis by (simp add: frame_trans [OF 1])
  qed
qed

text \<open>The clone: a new object with a new array, equal to the value-level clone.\<close>

lemma s_clone_separate:
  assumes "b < length (objects st)" and "obj_data (objects st ! b) < length (arrays st)"
  shows "frame st (snd (s_clone b st)) b (fst (s_clone b st))"
  using assms
  by (simp add: frame_def separate_def s_clone_def s_new_BinFile_def new_Uint8Array_def
      nth_append)

lemma s_clone_view:
  assumes "b < length (objects st)" and "obj_data (objects st ! b) < length (arrays st)"
  shows "s_view (snd (s_clone b st)) (fst (s_clone b st)) = clone (s_view st b)"
  using assms
  by (simp add: s_clone_def s_new_BinFile_def new_Uint8Array_def s_view_def clone_def
      BinFile_of_bytes_def nth_append js_slice_def)

text \<open>The operations on the store are the operations on the value an object denotes.\<close>

lemma s_expand_view:
  assumes "c < length (objects st)" and "obj_data (objects st ! c) < length (arrays st)"
  shows "s_view (s_expand n c st) c = expand n (s_view st c)"
  using assms
  by (simp add: s_expand_def new_Uint8Array_def s_view_def expand_def nth_append)

lemma s_writeU8_view:
  assumes "c < length (objects st)" and "obj_data (objects st ! c) < length (arrays st)"
  shows "s_view (s_writeU8 v c st) c = writeU8 v (s_view st c)"
proof (cases "obj_offset (objects st ! c) \<ge> int (length (arrays st ! obj_data (objects st ! c)))")
  case True
  with assms show ?thesis
    by (simp add: s_writeU8_def s_advance_def s_store_byte_def s_expand_def new_Uint8Array_def
        s_view_def writeU8_def expand_def Let_def nth_append)
next
  case False
  with assms show ?thesis
    by (simp add: s_writeU8_def s_advance_def s_store_byte_def s_view_def writeU8_def Let_def)
qed

lemma s_writeBytes_view:
  assumes "c < length (objects st)" and "obj_data (objects st ! c) < length (arrays st)"
  shows "writeBytes bs (s_view st c)
           = (case s_writeBytes bs c st of Inl e \<Rightarrow> Inl e | Inr st' \<Rightarrow> Inr (s_view st' c))"
proof (cases "obj_offset (objects st ! c) + int (length bs)
    > int (length (arrays st ! obj_data (objects st ! c)))")
  case True
  with assms show ?thesis
    by (simp add: s_writeBytes_def s_advance_def s_set_bytes_def s_expand_def
        new_Uint8Array_def s_view_def writeBytes_def expand_def Let_def nth_append)
next
  case False
  with assms show ?thesis
    by (simp add: s_writeBytes_def s_advance_def s_set_bytes_def s_view_def writeBytes_def
        Let_def)
qed

lemma clone_fields:
  "fileSize (clone f) = fileSize f \<and> fileName (clone f) = fileName f \<and>
   littleEndian (clone f) = littleEndian f \<and> offset (clone f) = 0 \<and>
   data (clone f) = data f \<and> getBytes (clone f) = getBytes f"
  by (simp add: clone_def BinFile_of_bytes_def getBytes_def js_slice_def)

text \<open>
  C10: the clone of an allocated buffer \<open>b\<close> denotes the value-level clone: the same
  size, name, endianness flag and bytes, with the cursor at 0 wherever \<open>b\<close>'s cursor is.
  It is a different object with a different array, cloning leaves \<open>b\<close> as it was, and
  so does every sequence of writes and expands performed on the clone.
\<close>

theorem clone_shares_no_storage:
  assumes "b < length (objects st)" and "obj_data (objects st ! b) < length (arrays st)"
  shows "s_view (snd (s_clone b st)) (fst (s_clone b st)) = clone (s_view st b) \<and>
         fileSize (clone (s_view st b)) = fileSize (s_view st b) \<and>
         fileName (clone (s_view st b)) = fileName (s_view st b) \<and>
         littleEndian (clone (s_view st b)) = littleEndian (s_view st b) \<and>
         getBytes (clone (s_view st b)) = getBytes (s_view st b) \<and>
         offset (clone (s_view st b)) = 0 \<and>
         fst (s_clone b st) \<noteq> b \<and>
         obj_data (objects (snd (s_clone b st)) ! fst (s_clone b st))
           \<noteq> obj_data (objects (snd (s_clone b st)) ! b) \<and>
         s_view (snd (s_clone b st)) b = s_view st b \<and>
         s_view (s_run cs (fst (s_clone b st)) (snd (s_clone b st))) b = s_view st b"
proof -
  let ?c = "fst (s_clone b st)" and ?st1 = "snd (s_clone b st)"
  have 1: "frame st ?st1 b ?c" by (rule s_clone_separate [OF assms])
  then have sep: "separate ?st1 b ?c" by (rule frame_separate)
  have 2: "frame ?st1 (s_run cs ?c ?st1) b ?c" by (rule s_run_frame [OF sep])
  have 3: "s_view (s_run cs ?c ?st1) b = s_view st b"
    using frame_view [OF frame_trans [OF 1 2]] .
  from sep have 4: "?c \<noteq> b \<and> obj_data (objects ?st1 ! ?c) \<noteq> obj_data (objects ?st1 ! b)"
    by (auto simp: separate_def)
  from s_clone_view [OF assms] clone_fields [of "s_view st b"] frame_view [OF 1] 3 4
  show ?thesis by simp
qed

text \<open>
  A store with one buffer, \<open>rom.bin\<close>, of three bytes with its cursor at 2. Its clone is
  written to and expanded; the clone then holds \<open>09 05 07 07 00 00 00 00\<close> and the
  original still \<open>01 02 03\<close> with its cursor at 2.
\<close>

definition store_example :: store where
  "store_example =
     \<lparr>arrays = [[1, 2, 3]],
      objects = [\<lparr>obj_fileName = ''rom.bin'', obj_fileSize = 3, obj_littleEndian = True,
                  obj_offset = 2, obj_data = 0, obj_u8array = 0, obj_offsetsStack = []\<rparr>]\<rparr>"

definition ops_example :: "buffer_op list" where
  "ops_example = [OpWriteU8 9, OpExpand 8, OpWriteU8 5, OpWriteBytes [7, 7]]"

theorem clone_shares_no_storage_witness:
  "0 < length (objects store_example) \<and>
   obj_data (objects store_example ! 0) < length (arrays store_example) \<and>
   s_view (snd (s_clone 0 store_example)) (fst (s_clone 0 store_example))
     = \<lparr>fileName = ''rom.bin'', fileSize = 3, littleEndian = True, offset = 0,
        data = [1, 2, 3], offsetsStack = []\<rparr> \<and>
   s_view (s_run ops_example (fst (s_clone 0 store_example)) (snd (s_clone 0 store_example)))
       (fst (s_clone 0 store_example))
     = \<lparr>fileName = ''rom.bin'', fileSize = 4, littleEndian = True, offset = 4,
        data = [9, 5, 7, 7, 0, 0, 0, 0], offsetsStack = []\<rparr> \<and>
   s_view (s_run ops_example (fst (s_clone 0 store_example)) (snd (s_clone 0 store_example))) 0
     = \<lparr>fileName = ''rom.bin'', fileSize = 3, littleEndian = True, offset = 2,
        data = [1, 2, 3], offsetsStack = []\<rparr>"
proof -
  have a: "0 < length (objects store_example)"
    "obj_data (objects store_example ! 0) < length (arrays store_example)"
    by (simp_all add: store_example_def)
  have v: "s_view store_example 0
      = \<lparr>fileName = ''rom.bin'', fileSize = 3, littleEndian = True, offset = 2,
         data = [1, 2, 3], offsetsStack = []\<rparr>"
    by (simp add: store_example_def s_view_def)
  have c: "clone (s_view store_example 0)
      = \<lparr>fileName = ''rom.bin'', fileSize = 3, littleEndian = True, offset = 0,
         data = [1, 2, 3], offsetsStack = []\<rparr>"
    unfolding v by code_simp
  have w: "s_view (s_run ops_example (fst (s_clone 0 store_example))
        (snd (s_clone 0 store_example))) (fst (s_clone 0 store_example))
      = \<lparr>fileName = ''rom.bin'', fileSize = 4, littleEndian = True, offset = 4,
         data = [9, 5, 7, 7, 0, 0, 0, 0], offsetsStack = []\<rparr>"
    by code_simp
  from clone_shares_no_storage [OF a, of ops_example] a v c w
  show ?thesis by simp
qed

end
